theory Spec2Isabelle
  imports Main "HOL-Library.Multiset"
begin

section \<open>Python objects and classes\<close>

text \<open>
  The tracer in \<^verbatim>\<open>torch/_dynamo/variables/torch_function.py\<close> inspects Python classes:
  it compares class attributes by identity, asks for the \<^verbatim>\<open>__get__\<close> entry point of an
  attribute and reads \<^verbatim>\<open>__name__\<close> and \<^verbatim>\<open>id(...)\<close> of a class. An object is therefore
  modelled by its identity; \<open>Descriptor\<close> objects (functions, properties, getset
  descriptors) have a \<^verbatim>\<open>__get__\<close> attribute, \<open>PlainObject\<close>s do not, and
  \<open>MethodWrapperGet x\<close> is the object \<^verbatim>\<open>x.__get__\<close>.
\<close>

datatype pyobj = Descriptor nat | PlainObject nat | MethodWrapperGet pyobj

text \<open>
  A class carries \<^verbatim>\<open>id(cls)\<close>, \<^verbatim>\<open>cls.__name__\<close>, the tail of \<^verbatim>\<open>cls.__mro__\<close> (the
  MRO is the class itself followed by this tail), its own namespace \<^verbatim>\<open>cls.__dict__\<close>, and
  the namespaces of its metaclass: \<open>meta_dict\<close> lists the entries of \<^verbatim>\<open>entry.__dict__\<close> for
  the entries of \<^verbatim>\<open>type(cls).__mro__\<close>, in that order.
\<close>

datatype pytype =
  PyType (type_id: nat) (type_name: string) (mro_tail: "pytype list")
    (type_dict: "(string \<times> pyobj) list") (meta_dict: "(string \<times> pyobj) list")

text \<open>\<^verbatim>\<open>issubclass(B, A)\<close>: \<open>A\<close> occurs in the MRO of \<open>B\<close>.\<close>

definition issubclass :: "pytype \<Rightarrow> pytype \<Rightarrow> bool" where
  "issubclass B A = (A \<in> set (B # mro_tail B))"

definition strict_subclass :: "pytype \<Rightarrow> pytype \<Rightarrow> bool" where
  "strict_subclass B A = (issubclass B A \<and> B \<noteq> A)"

text \<open>
  \<^verbatim>\<open>inspect.getattr_static(klass, attr)\<close> on a class: the first namespace along the MRO
  of the class that has the name wins; when none has it, the namespaces along the MRO of
  the metaclass are searched ("for types we check the metaclass too"). No descriptor is
  invoked; \<open>None\<close> stands for the \<^verbatim>\<open>AttributeError\<close>.
\<close>

definition getattr_static :: "pytype \<Rightarrow> string \<Rightarrow> pyobj option" where
  "getattr_static klass attr =
     (case map_of (concat (map type_dict (klass # mro_tail klass))) attr of
        Some v \<Rightarrow> Some v
      | None \<Rightarrow> map_of (meta_dict klass) attr)"

section \<open>Variable trackers, errors and the tracing context\<close>

datatype source = LocalSource string | GlobalSource string | AttrSource source string

datatype pyconst = NotImplemented | PyNone | PyInt int

text \<open>
  The tracer's values. \<open>BuiltVariable v s\<close> is what \<^verbatim>\<open>VariableBuilder(tx, s)(v)\<close>
  (with a source) or \<^verbatim>\<open>SourcelessBuilder()(tx, v)\<close> (without) returns for a Python object;
  the first component of the two tensor variables stands for the fields this file never
  reads (proxy, dtype, device, ...).
\<close>

datatype vt =
    ConstantVariable pyconst
  | TupleVariable "vt list"
  | ListVariable "vt list"
  | ConstDictVariable "(string \<times> vt) list"
  | UserDefinedClassVariable pytype "source option"
  | BuiltVariable pyobj "source option"
  | TensorVariable nat pytype "source option"
  | TensorWithTFOverrideVariable (proxy: nat) (class_type: pytype) (source: "source option")
      (torch_function_fn: vt)

text \<open>\<^verbatim>\<open>isinstance(arg, TensorWithTFOverrideVariable)\<close>\<close>

fun is_TensorWithTFOverrideVariable :: "vt \<Rightarrow> bool" where
  "is_TensorWithTFOverrideVariable (TensorWithTFOverrideVariable p c s f) = True"
| "is_TensorWithTFOverrideVariable v = False"

type_synonym kwargs = "(string \<times> vt) list"

text \<open>
  Every \<^verbatim>\<open>unimplemented(f"...")\<close> of the file raises \<^verbatim>\<open>Unsupported\<close> with a message; the
  model keeps one constructor per message, with the values the message interpolates:
  \<^item> \<open>AllNotImplemented fn args kwargs\<close>: "All __torch_function__ overrides for call
    {fn} with args {args} and kwargs {kwargs} returned NotImplemented"
    (the spec's \<^verbatim>\<open>UnsupportedDispatch\<close>);
  \<^item> \<open>AccessNotSupported name\<close>: "Accessing {name} on a tensor subclass with a
    __torch_function__ override is not supported" (the spec's \<^verbatim>\<open>UnsupportedAttribute\<close>);
  \<^item> \<open>AccessOverridden name\<close>: "Accessing overidden method/attribute {name} on a tensor
    subclass ..." and \<open>CallOverridden name\<close>: "Calling overidden method {name} on a
    tensor subclass ..." (the spec's \<^verbatim>\<open>OverriddenAttributeUnsupported\<close>).
\<close>

datatype reason =
    AllNotImplemented vt "vt list" kwargs
  | AccessNotSupported string
  | AccessOverridden string
  | CallOverridden string

text \<open>
  \<open>Raised n\<close> is an exception that comes out of the surrounding tracer (inlining a
  handler, the base tensor variable), identified by an opaque token.
\<close>

datatype exc =
    AttributeError string
  | AssertionError string
  | KeyError string
  | TypeError string
  | Unsupported reason
  | Raised nat

text \<open>
  The part of \<^verbatim>\<open>tx\<close> and \<^verbatim>\<open>tx.output\<close> that the file reads or writes. \<open>inlined\<close> records,
  in order, every call of \<^verbatim>\<open>tx.inline_user_function_return\<close> (function variable, positional
  arguments, keyword arguments): it is how the model observes which handlers ran.
\<close>

record tx =
  torch_function_enabled :: bool
  global_scope :: "string \<rightharpoonup> pytype"
  inlined :: "(vt \<times> vt list \<times> kwargs) list"

text \<open>
  What the file imports and does not define, taken as parameters:
  \<^item> \<open>banned_attrs\<close>: the module-level list computed from
    \<^verbatim>\<open>get_default_nowrap_functions()\<close> and \<^verbatim>\<open>is_tensor_base_attr_getter\<close>;
  \<^item> \<open>torch_Tensor\<close>: the class \<^verbatim>\<open>torch.Tensor\<close>; \<open>Tensor_getattr name\<close>: the value of
    \<^verbatim>\<open>getattr(torch.Tensor, name)\<close>, \<open>None\<close> when it raises \<^verbatim>\<open>AttributeError\<close>
    (so \<^verbatim>\<open>hasattr(torch.Tensor, name)\<close> is \<open>Tensor_getattr name \<noteq> None\<close>);
  \<^item> \<open>inline_user_function_return\<close>: the outcome of inlining a handler on given arguments;
  \<^item> \<open>TensorVariable_var_getattr\<close>, \<open>TensorVariable_call_method\<close>: the attribute and
    method behaviour of the base class \<^verbatim>\<open>TensorVariable\<close>;
  \<^item> \<open>tensor_variable\<close>: the read of the attribute \<^verbatim>\<open>self.tensor_variable\<close> in
    \<^verbatim>\<open>call_method\<close>. Nothing in this file assigns that attribute (\<^verbatim>\<open>__init__\<close> stores
    \<^verbatim>\<open>torch_function_fn\<close> and hands the rest to \<^verbatim>\<open>TensorVariable\<close>); \<open>None\<close> is the
    \<^verbatim>\<open>AttributeError\<close> of the read, \<open>Some v\<close> a value the base class would have stored.
\<close>

record host =
  banned_attrs :: "string list"
  torch_Tensor :: pytype
  Tensor_getattr :: "string \<rightharpoonup> pyobj"
  inline_user_function_return :: "vt \<Rightarrow> vt list \<Rightarrow> kwargs \<Rightarrow> nat + vt"
  TensorVariable_var_getattr :: "tx \<Rightarrow> vt \<Rightarrow> string \<Rightarrow> nat + vt"
  TensorVariable_call_method :: "tx \<Rightarrow> vt \<Rightarrow> string \<Rightarrow> vt list \<Rightarrow> kwargs \<Rightarrow> nat + vt"
  tensor_variable :: "vt \<Rightarrow> vt option"

fun external :: "nat + vt \<Rightarrow> exc + vt" where
  "external (Inl n) = Inl (Raised n)"
| "external (Inr v) = Inr v"

text \<open>\<^verbatim>\<open>tx.inline_user_function_return(fn_var, args, kwargs)\<close>, recorded in \<open>inlined\<close>.\<close>

definition tx_inline_user_function_return ::
  "host \<Rightarrow> tx \<Rightarrow> vt \<Rightarrow> vt list \<Rightarrow> kwargs \<Rightarrow> (exc + vt) \<times> tx" where
  "tx_inline_user_function_return h tx fn_var args kwargs =
     (external (inline_user_function_return h fn_var args kwargs),
      tx\<lparr>inlined := inlined tx @ [(fn_var, args, kwargs)]\<rparr>)"

definition VariableBuilder :: "source \<Rightarrow> pyobj \<Rightarrow> vt" where
  "VariableBuilder src v = BuiltVariable v (Some src)"

definition SourcelessBuilder :: "pyobj \<Rightarrow> vt" where
  "SourcelessBuilder v = BuiltVariable v None"

text \<open>\<^verbatim>\<open>x.__get__\<close>: an \<^verbatim>\<open>AttributeError\<close> for an object that is no descriptor.\<close>

fun dunder_get :: "pyobj \<Rightarrow> exc + pyobj" where
  "dunder_get (Descriptor n) = Inr (MethodWrapperGet (Descriptor n))"
| "dunder_get x = Inl (AttributeError ''__get__'')"

section \<open>Flattening and the overload order\<close>

text \<open>
  Modelled from the spec: \<^verbatim>\<open>pytree.tree_leaves\<close> (\<^verbatim>\<open>torch/utils/_pytree.py\<close> is not part
  of the excerpt). "Arguments are recursively decomposed through ordered-sequence and
  mapping containers (arbitrary nesting depth) into a flat ordered list of leaves."
\<close>

fun tree_leaves :: "vt \<Rightarrow> vt list" where
  "tree_leaves (TupleVariable items) = concat (map tree_leaves items)"
| "tree_leaves (ListVariable items) = concat (map tree_leaves items)"
| "tree_leaves (ConstDictVariable items) = concat (map (\<lambda>kv. tree_leaves (snd kv)) items)"
| "tree_leaves v = [v]"

text \<open>\<^verbatim>\<open>pytree.tree_leaves(args) + pytree.tree_leaves(kwargs)\<close>\<close>

definition all_args :: "vt list \<Rightarrow> kwargs \<Rightarrow> vt list" where
  "all_args args kwargs =
     concat (map tree_leaves args) @ concat (map (\<lambda>kv. tree_leaves (snd kv)) kwargs)"

text \<open>
  Modelled from the spec: \<^verbatim>\<open>torch.overrides._get_overloaded_args\<close> (\<^verbatim>\<open>torch/overrides.py\<close>
  is not part of the excerpt), after the spec's "Algorithm for ordering".

  Step 1: "Walk leaves left to right; append each leaf's runtime type to a working list if
  not already present (first-occurrence order)." The working list holds the arguments
  themselves, one per type, as the caller reads \<^verbatim>\<open>arg.class_type\<close> and
  \<^verbatim>\<open>arg.call_torch_function\<close> from the result.
\<close>

fun first_occurrence :: "('a \<Rightarrow> pytype) \<Rightarrow> 'a list \<Rightarrow> 'a list \<Rightarrow> 'a list" where
  "first_occurrence get_type_fn work [] = work"
| "first_occurrence get_type_fn work (x # xs) =
     first_occurrence get_type_fn
       (if get_type_fn x \<in> set (map get_type_fn work) then work else work @ [x]) xs"

text \<open>
  Step 2: "Apply subclass-precedence: repeatedly, for any pair (A appears before B) where B
  is a strict subclass of A, move B immediately before A. This must reach a fixed point."
  One move takes the leftmost \<open>A\<close> that has a strict subclass to its right and the
  leftmost such \<open>B\<close>; \<open>None\<close> when there is no such pair.
\<close>

fun move_subclass :: "('a \<Rightarrow> pytype) \<Rightarrow> 'a list \<Rightarrow> 'a list option" where
  "move_subclass get_type_fn [] = None"
| "move_subclass get_type_fn (a # rest) =
     (case List.extract (\<lambda>b. strict_subclass (get_type_fn b) (get_type_fn a)) rest of
        Some (pre, b, post) \<Rightarrow> Some (b # a # pre @ post)
      | None \<Rightarrow> map_option ((#) a) (move_subclass get_type_fn rest))"

text \<open>
  The measure of the fixed-point iteration: a move puts a class with a longer MRO chain
  (a structurally larger one) at the leftmost position that changes.
\<close>

definition rank_list :: "('a \<Rightarrow> pytype) \<Rightarrow> 'a list \<Rightarrow> nat list" where
  "rank_list ty xs = map (\<lambda>x. sum_list (map (\<lambda>y. size (ty y)) xs) - size (ty x)) xs"

function subclass_precedence :: "('a \<Rightarrow> pytype) \<Rightarrow> 'a list \<Rightarrow> 'a list" where
  "subclass_precedence get_type_fn xs =
     (case move_subclass get_type_fn xs of
        None \<Rightarrow> xs
      | Some ys \<Rightarrow> subclass_precedence get_type_fn ys)"
  by pat_completeness auto
termination
proof (relation "inv_image (lex less_than) (\<lambda>(ty, xs). rank_list ty xs)")
  show "wf (inv_image (lex less_than) (\<lambda>(ty :: 'a \<Rightarrow> pytype, xs). rank_list ty xs))"
    by (simp add: wf_lex)
next
  fix ty :: "'a \<Rightarrow> pytype" and xs ys
  assume step: "move_subclass ty xs = Some ys"
  have size_mro: "size A < size B" if "A \<in> set (mro_tail B)" for A B
    using that by (cases B) (auto simp: less_Suc_eq_le size_list_estimation')
  have shape: "\<exists>p a b r r'. us = p @ a # r \<and> vs = p @ b # r' \<and> b \<in> set r \<and>
      strict_subclass (ty b) (ty a)" if "move_subclass ty us = Some vs" for us vs
    using that
  proof (induction us arbitrary: vs)
    case Nil
    then show ?case by simp
  next
    case (Cons a rest)
    show ?case
    proof (cases "List.extract (\<lambda>b. strict_subclass (ty b) (ty a)) rest")
      case None
      with Cons.prems obtain vs' where vs': "move_subclass ty rest = Some vs'" "vs = a # vs'"
        by auto
      from Cons.IH [OF vs'(1)] obtain p a' b r r' where
        "rest = p @ a' # r" "vs' = p @ b # r'" "b \<in> set r" "strict_subclass (ty b) (ty a')"
        by blast
      with vs'(2) have "a # rest = (a # p) @ a' # r \<and> vs = (a # p) @ b # r' \<and> b \<in> set r \<and>
          strict_subclass (ty b) (ty a')"
        by simp
      then show ?thesis by blast
    next
      case (Some t)
      obtain pre b post where t: "t = (pre, b, post)" by (cases t)
      with Some Cons.prems have vs: "vs = b # a # pre @ post" by simp
      from Some t have "rest = pre @ b # post" "strict_subclass (ty b) (ty a)"
        by (auto simp: extract_Some_iff)
      with vs have "a # rest = [] @ a # rest \<and> vs = [] @ b # (a # pre @ post) \<and>
          b \<in> set rest \<and> strict_subclass (ty b) (ty a)"
        by simp
      then show ?thesis by blast
    qed
  qed
  have perm: "mset vs = mset us" if "move_subclass ty us = Some vs" for us vs
    using that
    by (induction us arbitrary: vs) (auto simp: extract_Some_iff split: option.splits)
  from shape [OF step] obtain p a b r r' where
    sh: "xs = p @ a # r" "ys = p @ b # r'" "b \<in> set r" "strict_subclass (ty b) (ty a)"
    by blast
  let ?S = "sum_list (map (\<lambda>y. size (ty y)) xs)"
  have ms: "mset ys = mset xs" by (rule perm [OF step])
  then have S: "sum_list (map (\<lambda>y. size (ty y)) ys) = ?S"
    by (metis mset_map sum_mset_sum_list)
  have len: "length ys = length xs" using ms by (rule mset_eq_length)
  have "b \<in> set xs" using sh by simp
  then have "size (ty b) \<le> ?S"
    by (simp add: member_le_sum_list)
  moreover have "size (ty a) < size (ty b)"
    using sh(4) by (auto simp: strict_subclass_def issubclass_def dest: size_mro)
  ultimately have lt: "?S - size (ty b) < ?S - size (ty a)" by arith
  let ?g = "\<lambda>x. ?S - size (ty x)"
  have "rank_list ty ys = map ?g p @ ?g b # map ?g r'"
    unfolding rank_list_def S by (simp add: sh)
  moreover have "rank_list ty xs = map ?g p @ ?g a # map ?g r"
    unfolding rank_list_def by (simp add: sh)
  moreover have "length (rank_list ty ys) = length (rank_list ty xs)"
    by (simp add: rank_list_def len)
  ultimately have "(rank_list ty ys, rank_list ty xs) \<in> lex less_than"
    using lt unfolding lex_conv by (auto simp del: map_append)
  then show "((ty, ys), (ty, xs)) \<in> inv_image (lex less_than) (\<lambda>(ty, xs). rank_list ty xs)"
    by simp
qed

declare subclass_precedence.simps [simp del]

definition get_overloaded_args :: "'a list \<Rightarrow> ('a \<Rightarrow> pytype) \<Rightarrow> 'a list" where
  "get_overloaded_args relevant_args get_type_fn =
     subclass_precedence get_type_fn (first_occurrence get_type_fn [] relevant_args)"

section \<open>The dispatch resolver\<close>

definition can_dispatch_torch_function :: "tx \<Rightarrow> vt list \<Rightarrow> kwargs \<Rightarrow> bool" where
  "can_dispatch_torch_function tx args kwargs =
     (if torch_function_enabled tx
      then list_ex is_TensorWithTFOverrideVariable (all_args args kwargs)
      else False)"

definition python_type :: "vt \<Rightarrow> pytype" where
  "python_type self = class_type self"

fun decimal :: "nat \<Rightarrow> string" where
  "decimal n =
     (if n < 10 then [char_of (48 + n)] else decimal (n div 10) @ [char_of (48 + n mod 10)])"

declare decimal.simps [simp del]

text \<open>\<^verbatim>\<open>f"__subclass_{self.class_type.__name__}_{id(self.class_type)}"\<close>\<close>

definition global_mangled_class_name :: "vt \<Rightarrow> string" where
  "global_mangled_class_name self =
     ''__subclass_'' @ type_name (class_type self) @ ''_'' @ decimal (type_id (class_type self))"

definition subclass_type_var :: "vt \<Rightarrow> vt" where
  "subclass_type_var self =
     UserDefinedClassVariable (class_type self)
       (Some (GlobalSource (global_mangled_class_name self)))"

text \<open>The module-level \<^verbatim>\<open>call_torch_function\<close>.\<close>

definition call_torch_function ::
  "host \<Rightarrow> tx \<Rightarrow> vt \<Rightarrow> vt \<Rightarrow> vt \<Rightarrow> vt \<Rightarrow> vt list \<Rightarrow> kwargs \<Rightarrow> (exc + vt) \<times> tx" where
  "call_torch_function h tx torch_function_type torch_function_var fn types args kwargs =
     (let tf_args = [torch_function_type, fn, types, TupleVariable args]
      in tx_inline_user_function_return h tx torch_function_var tf_args kwargs)"

text \<open>The method \<^verbatim>\<open>TensorWithTFOverrideVariable.call_torch_function\<close>.\<close>

definition self_call_torch_function ::
  "host \<Rightarrow> tx \<Rightarrow> vt \<Rightarrow> vt \<Rightarrow> vt \<Rightarrow> vt list \<Rightarrow> kwargs \<Rightarrow> (exc + vt) \<times> tx" where
  "self_call_torch_function h tx self fn types args kwargs =
     call_torch_function h tx (subclass_type_var self) (torch_function_fn self)
       fn types args kwargs"

text \<open>The \<^verbatim>\<open>overloaded_args\<close> of \<^verbatim>\<open>dispatch_torch_function\<close>.\<close>

definition overloaded_args :: "vt list \<Rightarrow> kwargs \<Rightarrow> vt list" where
  "overloaded_args args kwargs =
     get_overloaded_args (filter is_TensorWithTFOverrideVariable (all_args args kwargs))
       class_type"

text \<open>The spec's OverloadOrder of a call site: the types of \<open>overloaded_args\<close>.\<close>

definition OverloadOrder :: "vt list \<Rightarrow> kwargs \<Rightarrow> pytype list" where
  "OverloadOrder args kwargs = map class_type (overloaded_args args kwargs)"

text \<open>
  The \<^verbatim>\<open>for arg in overloaded_args\<close> loop with the \<^verbatim>\<open>unimplemented(...)\<close> that follows it.
\<close>

fun dispatch_loop ::
  "host \<Rightarrow> tx \<Rightarrow> vt \<Rightarrow> vt \<Rightarrow> vt list \<Rightarrow> kwargs \<Rightarrow> vt list \<Rightarrow> (exc + vt) \<times> tx" where
  "dispatch_loop h tx fn types args kwargs [] =
     (Inl (Unsupported (AllNotImplemented fn args kwargs)), tx)"
| "dispatch_loop h tx fn types args kwargs (arg # rest) =
     (case self_call_torch_function h tx arg fn types args kwargs of
        (Inl e, tx') \<Rightarrow> (Inl e, tx')
      | (Inr res, tx') \<Rightarrow>
          if res \<noteq> ConstantVariable NotImplemented then (Inr res, tx')
          else dispatch_loop h tx' fn types args kwargs rest)"

definition dispatch_torch_function ::
  "host \<Rightarrow> tx \<Rightarrow> vt \<Rightarrow> vt list \<Rightarrow> kwargs \<Rightarrow> (exc + vt) \<times> tx" where
  "dispatch_torch_function h tx fn args kwargs =
     (let ovl = overloaded_args args kwargs
      in dispatch_loop h tx fn (TupleVariable (map subclass_type_var ovl)) args kwargs ovl)"

section \<open>The attribute and method trampolines\<close>

text \<open>
  \<^verbatim>\<open>_is_attr_overidden\<close>: both lookups sit in one \<^verbatim>\<open>try\<close> whose \<^verbatim>\<open>AttributeError\<close> is
  swallowed, leaving \<^verbatim>\<open>overridden = False\<close>.
\<close>

definition is_attr_overidden :: "host \<Rightarrow> vt \<Rightarrow> string \<Rightarrow> bool" where
  "is_attr_overidden h var name =
     (case getattr_static (python_type var) name of
        None \<Rightarrow> False
      | Some attr_val \<Rightarrow>
          (case Tensor_getattr h name of
             None \<Rightarrow> False
           | Some base_val \<Rightarrow> attr_val \<noteq> base_val))"

text \<open>
  Modelled from the spec: \<^verbatim>\<open>tx.output.install_global\<close> (the output graph is not part of the
  excerpt): the registry is "keyed by a deterministic synthetic name".
\<close>

definition install_global :: "tx \<Rightarrow> string \<Rightarrow> pytype \<Rightarrow> tx" where
  "install_global tx name v = tx\<lparr>global_scope := (global_scope tx)(name \<mapsto> v)\<rparr>"

text \<open>
  \<^verbatim>\<open>from_tensor_var\<close>. \<^verbatim>\<open>kwargs = dict(tensor_var.__dict__)\<close> and
  \<^verbatim>\<open>kwargs.pop("class_type")\<close>: a variable without a \<^verbatim>\<open>class_type\<close> field raises
  \<^verbatim>\<open>KeyError\<close>; the assertion wants the popped class to be \<^verbatim>\<open>torch.Tensor\<close>. For a
  \<^verbatim>\<open>TensorWithTFOverrideVariable\<close> that passes the assertion, \<^verbatim>\<open>kwargs\<close> still holds its
  \<^verbatim>\<open>torch_function_fn\<close>, and the constructor call passes that keyword twice.
\<close>

definition from_tensor_var ::
  "host \<Rightarrow> tx \<Rightarrow> vt \<Rightarrow> pytype \<Rightarrow> vt \<Rightarrow> (exc + vt) \<times> tx" where
  "from_tensor_var h tx tensor_var cls_type tf_fn =
     (case tensor_var of
        TensorVariable p c s \<Rightarrow>
          if c \<noteq> torch_Tensor h
          then (Inl (AssertionError
                  ''invalid class type in TensorWithTFOverrideVariable.from_tensor_var''), tx)
          else
            (let var = TensorWithTFOverrideVariable p cls_type s tf_fn
             in (Inr var,
                 if global_scope tx (global_mangled_class_name var) = None
                 then install_global tx (global_mangled_class_name var) cls_type
                 else tx))
      | TensorWithTFOverrideVariable p c s f \<Rightarrow>
          if c \<noteq> torch_Tensor h
          then (Inl (AssertionError
                  ''invalid class type in TensorWithTFOverrideVariable.from_tensor_var''), tx)
          else (Inl (TypeError ''got multiple values for keyword argument torch_function_fn''),
                tx)
      | _ \<Rightarrow> (Inl (KeyError ''class_type''), tx))"

text \<open>The \<^verbatim>\<open>get_fn\<close> of \<^verbatim>\<open>var_getattr\<close>: with a source, and without.\<close>

definition getattr_get_fn :: "host \<Rightarrow> vt \<Rightarrow> string \<Rightarrow> exc + vt" where
  "getattr_get_fn h self name =
     (case source self of
        Some src \<Rightarrow>
          (case getattr_static (python_type self) name of
             None \<Rightarrow> Inl (AttributeError name)
           | Some attr_val \<Rightarrow>
               (case dunder_get attr_val of
                  Inl e \<Rightarrow> Inl e
                | Inr g \<Rightarrow>
                    Inr (VariableBuilder
                          (AttrSource (AttrSource (AttrSource src ''__class__'') name)
                             ''__get__'') g)))
      | None \<Rightarrow>
          (case Tensor_getattr h name of
             None \<Rightarrow> Inl (AttributeError name)
           | Some base_val \<Rightarrow>
               (case dunder_get base_val of
                  Inl e \<Rightarrow> Inl e
                | Inr g \<Rightarrow> Inr (SourcelessBuilder g))))"

definition var_getattr :: "host \<Rightarrow> tx \<Rightarrow> vt \<Rightarrow> string \<Rightarrow> (exc + vt) \<times> tx" where
  "var_getattr h tx self name =
     (if name \<in> set (banned_attrs h) \<or> Tensor_getattr h name = None
      then (Inl (Unsupported (AccessNotSupported name)), tx)
      else if is_attr_overidden h self name
      then (Inl (Unsupported (AccessOverridden name)), tx)
      else if torch_function_enabled tx
      then
        (case getattr_get_fn h self name of
           Inl e \<Rightarrow> (Inl e, tx)
         | Inr get_fn \<Rightarrow>
             self_call_torch_function h tx self get_fn
               (TupleVariable [subclass_type_var self]) [self] [])
      else (external (TensorVariable_var_getattr h tx self name), tx))"

text \<open>The \<^verbatim>\<open>func_var\<close> of \<^verbatim>\<open>call_method\<close>: with a source, and without.\<close>

definition method_func_var :: "host \<Rightarrow> vt \<Rightarrow> string \<Rightarrow> exc + vt" where
  "method_func_var h self name =
     (case source self of
        Some src \<Rightarrow>
          (case getattr_static (python_type self) name of
             None \<Rightarrow> Inl (AttributeError name)
           | Some attr_val \<Rightarrow>
               Inr (VariableBuilder (AttrSource (AttrSource src ''__class__'') name) attr_val))
      | None \<Rightarrow>
          (case Tensor_getattr h name of
             None \<Rightarrow> Inl (AttributeError name)
           | Some base_val \<Rightarrow> Inr (SourcelessBuilder base_val)))"

definition call_method ::
  "host \<Rightarrow> tx \<Rightarrow> vt \<Rightarrow> string \<Rightarrow> vt list \<Rightarrow> kwargs \<Rightarrow> (exc + vt) \<times> tx" where
  "call_method h tx self name args kwargs =
     (if torch_function_enabled tx
      then
        if is_attr_overidden h self name
        then (Inl (Unsupported (CallOverridden name)), tx)
        else
          (case method_func_var h self name of
             Inl e \<Rightarrow> (Inl e, tx)
           | Inr func_var \<Rightarrow> dispatch_torch_function h tx func_var (self # args) kwargs)
      else
        (case tensor_variable h self of
           None \<Rightarrow> (Inl (AttributeError ''tensor_variable''), tx)
         | Some base_var \<Rightarrow>
             (external (TensorVariable_call_method h tx base_var name args kwargs), tx)))"

text \<open>
  The runtime types of the flattened overriding leaves of a call site, in argument order.
\<close>

definition leaf_types :: "vt list \<Rightarrow> kwargs \<Rightarrow> pytype list" where
  "leaf_types args kwargs =
     map class_type (filter is_TensorWithTFOverrideVariable (all_args args kwargs))"

text \<open>\<open>x\<close> occurs in \<open>xs\<close> before the first occurrence of \<open>y\<close>.\<close>

definition precedes :: "'a \<Rightarrow> 'a \<Rightarrow> 'a list \<Rightarrow> bool" where
  "precedes x y xs = (x \<in> set (takeWhile (\<lambda>t. t \<noteq> y) xs))"


section \<open>A small class hierarchy for concrete runs\<close>

text \<open>
  \<open>ex_Tensor\<close> plays \<^verbatim>\<open>torch.Tensor\<close>: its \<^verbatim>\<open>__doc__\<close> is a plain string, and
  \<^verbatim>\<open>getattr(torch.Tensor, "mro")\<close> is a bound method, not the entry of the metaclass.
  \<open>ex_A\<close> and \<open>ex_C\<close> are direct subclasses that override nothing, \<open>ex_B\<close> is a subclass
  of \<open>ex_A\<close> that overrides \<^verbatim>\<open>add\<close> and \<^verbatim>\<open>grad\<close>. The handler of \<open>ex_A\<close> declines
  every call, those of \<open>ex_B\<close> and \<open>ex_C\<close> answer \<open>7\<close> and \<open>9\<close>. No tracked value has a
  \<^verbatim>\<open>tensor_variable\<close> attribute.
\<close>

definition ex_meta :: "(string \<times> pyobj) list" where
  "ex_meta = [(''mro'', Descriptor 91)]"

definition ex_Tensor :: pytype where
  "ex_Tensor = PyType 1 ''Tensor'' []
     [(''add'', Descriptor 10), (''grad'', Descriptor 11), (''shape'', Descriptor 12),
      (''__doc__'', PlainObject 13)]
     ex_meta"

definition ex_A :: pytype where
  "ex_A = PyType 2 ''A'' [ex_Tensor] [] ex_meta"

definition ex_B :: pytype where
  "ex_B = PyType 3 ''B'' [ex_A, ex_Tensor] [(''add'', Descriptor 30), (''grad'', Descriptor 31)]
     ex_meta"

definition ex_C :: pytype where
  "ex_C = PyType 4 ''C'' [ex_Tensor] [] ex_meta"

definition ex_fn :: "nat \<Rightarrow> vt" where
  "ex_fn n = BuiltVariable (Descriptor (100 + n)) None"

definition ex_a :: vt where
  "ex_a = TensorWithTFOverrideVariable 0 ex_A None (ex_fn 2)"

definition ex_b :: vt where
  "ex_b = TensorWithTFOverrideVariable 0 ex_B (Some (LocalSource ''b'')) (ex_fn 3)"

definition ex_c :: vt where
  "ex_c = TensorWithTFOverrideVariable 0 ex_C None (ex_fn 4)"

definition ex_inline :: "vt \<Rightarrow> vt list \<Rightarrow> kwargs \<Rightarrow> nat + vt" where
  "ex_inline fn_var tf_args kw =
     (if fn_var = ex_fn 3 then Inr (ConstantVariable (PyInt 7))
      else if fn_var = ex_fn 4 then Inr (ConstantVariable (PyInt 9))
      else Inr (ConstantVariable NotImplemented))"

definition ex_host :: host where
  "ex_host = \<lparr>banned_attrs = [''_base'', ''grad'', ''_grad''],
     torch_Tensor = ex_Tensor,
     Tensor_getattr = map_of (type_dict ex_Tensor @ [(''mro'', PlainObject 92)]),
     inline_user_function_return = ex_inline,
     TensorVariable_var_getattr = (\<lambda>tx v name. Inr (ConstantVariable PyNone)),
     TensorVariable_call_method = (\<lambda>tx v name args kw. Inr (ConstantVariable PyNone)),
     tensor_variable = (\<lambda>v. None)\<rparr>"

definition ex_tx :: "bool \<Rightarrow> tx" where
  "ex_tx enabled = \<lparr>torch_function_enabled = enabled, global_scope = Map.empty, inlined = []\<rparr>"

section \<open>Properties of the dispatch resolver and the trampolines\<close>


lemma dispatch_loop_declined:
  assumes "\<forall>b\<in>set pre. inline_user_function_return h (torch_function_fn b)
      [subclass_type_var b, fn, types, TupleVariable args] kwargs
        = Inr (ConstantVariable NotImplemented)"
  shows "dispatch_loop h tx fn types args kwargs (pre @ rest) =
     dispatch_loop h
       (tx\<lparr>inlined := inlined tx @
          map (\<lambda>b. (torch_function_fn b, [subclass_type_var b, fn, types, TupleVariable args],
            kwargs)) pre\<rparr>)
       fn types args kwargs rest"
  using assms
proof (induction pre arbitrary: tx)
  case Nil
  then show ?case by simp
next
  case (Cons b pre)
  then show ?case
    by (simp add: self_call_torch_function_def call_torch_function_def
        tx_inline_user_function_return_def)
qed

text \<open>
  C7. An attribute access whose name is in the deny-list, or is not an attribute of the
  base tensor class at all, fails with the "Accessing {name} ... is not supported" error
  (UnsupportedAttribute), whatever the tracked class and whatever its own namespace says
  about the name, and the tracing context is left as it was.
\<close>

theorem var_getattr_banned_or_missing:
  assumes "name \<in> set (banned_attrs h) \<or> Tensor_getattr h name = None"
  shows "var_getattr h tx self name = (Inl (Unsupported (AccessNotSupported name)), tx)"
  using assms by (simp add: var_getattr_def)

theorem var_getattr_banned_or_missing_witness:
  "var_getattr ex_host (ex_tx True) ex_b ''grad''
      = (Inl (Unsupported (AccessNotSupported ''grad'')), ex_tx True)
   \<and> var_getattr ex_host (ex_tx True) ex_b ''extra''
      = (Inl (Unsupported (AccessNotSupported ''extra'')), ex_tx True)
   \<and> ''grad'' \<in> set (banned_attrs ex_host) \<and> Tensor_getattr ex_host ''extra'' = None"
  using var_getattr_banned_or_missing [of "''grad''" ex_host "ex_tx True" ex_b]
    var_getattr_banned_or_missing [of "''extra''" ex_host "ex_tx True" ex_b]
  by (simp add: ex_host_def ex_Tensor_def)

lemma external_not_Unsupported: "external x \<noteq> Inl (Unsupported r)"
  by (cases x) simp_all

lemma dunder_get_not_Unsupported: "dunder_get x \<noteq> Inl (Unsupported r)"
  by (cases x) simp_all

lemma self_call_torch_function_eq:
  "self_call_torch_function h tx self fn types args kwargs =
     (external (inline_user_function_return h (torch_function_fn self)
        [subclass_type_var self, fn, types, TupleVariable args] kwargs),
      tx\<lparr>inlined := inlined tx @
        [(torch_function_fn self, [subclass_type_var self, fn, types, TupleVariable args],
          kwargs)]\<rparr>)"
  by (simp add: self_call_torch_function_def call_torch_function_def
      tx_inline_user_function_return_def Let_def)

lemma dispatch_loop_not_CallOverridden:
  "fst (dispatch_loop h tx fn types args kwargs ovl) \<noteq> Inl (Unsupported (CallOverridden name))"
proof (induction ovl arbitrary: tx)
  case Nil
  then show ?case by simp
next
  case (Cons a ovl)
  show ?case
  proof (cases "inline_user_function_return h (torch_function_fn a)
        [subclass_type_var a, fn, types, TupleVariable args] kwargs")
    case (Inl n)
    then show ?thesis by (simp add: self_call_torch_function_eq)
  next
    case (Inr res)
    then show ?thesis using Cons.IH by (simp add: self_call_torch_function_eq)
  qed
qed

text \<open>
  C10. A name that static lookup does not find on the tracked class, or that the base
  tensor class does not have, is reported as not overridden (the AttributeError of either
  lookup is swallowed), so neither the attribute access nor the method call is rejected
  with the "overidden" error for it.
\<close>

theorem absent_name_not_overridden:
  assumes "getattr_static (python_type var) name = None \<or> Tensor_getattr h name = None"
  shows "\<not> is_attr_overidden h var name
    \<and> fst (var_getattr h tx var name) \<noteq> Inl (Unsupported (AccessOverridden name))
    \<and> fst (call_method h tx var name args kwargs) \<noteq> Inl (Unsupported (CallOverridden name))"
proof -
  have no: "\<not> is_attr_overidden h var name"
    using assms by (auto simp: is_attr_overidden_def split: option.splits)
  have "fst (var_getattr h tx var name) \<noteq> Inl (Unsupported (AccessOverridden name))"
    using no
    by (auto simp: var_getattr_def self_call_torch_function_eq external_not_Unsupported
        getattr_get_fn_def dunder_get_not_Unsupported split: sum.splits option.splits)
  moreover have "fst (call_method h tx var name args kwargs)
      \<noteq> Inl (Unsupported (CallOverridden name))"
    using no dispatch_loop_not_CallOverridden
    by (auto simp: call_method_def dispatch_torch_function_def external_not_Unsupported
        method_func_var_def Let_def split: sum.splits option.splits)
  ultimately show ?thesis using no by simp
qed

theorem absent_name_not_overridden_witness:
  "getattr_static (python_type ex_a) ''extra'' = None
   \<and> \<not> is_attr_overidden ex_host ex_a ''extra''
   \<and> fst (var_getattr ex_host (ex_tx True) ex_a ''extra'')
       \<noteq> Inl (Unsupported (AccessOverridden ''extra''))
   \<and> fst (call_method ex_host (ex_tx True) ex_a ''extra'' [] [])
       \<noteq> Inl (Unsupported (CallOverridden ''extra''))"
proof -
  have h: "getattr_static (python_type ex_a) ''extra'' = None"
    by (simp add: getattr_static_def python_type_def ex_a_def ex_A_def ex_Tensor_def
        ex_meta_def)
  show ?thesis
    using h absent_name_not_overridden [of ex_a "''extra''" ex_host "ex_tx True" "[]" "[]"]
    by simp
qed

lemma first_occurrence_Nil: "first_occurrence ty [] [] = []"
  by simp

lemma subclass_precedence_fixed:
  "move_subclass ty xs = None \<Longrightarrow> subclass_precedence ty xs = xs"
  by (simp add: subclass_precedence.simps)

lemma subclass_precedence_step:
  "move_subclass ty xs = Some ys \<Longrightarrow> subclass_precedence ty xs = subclass_precedence ty ys"
  by (subst subclass_precedence.simps) simp

lemma get_overloaded_args_Nil: "get_overloaded_args [] ty = []"
  by (simp add: get_overloaded_args_def subclass_precedence_fixed)

text \<open>
  C4. Dispatch is eligible exactly when the feature flag is on and an overriding value is
  among the flattened leaves of some positional argument or of the value of some keyword
  argument. When neither the positional arguments nor the keyword values hold such a leaf,
  the resolver reports "not eligible", and even a call of the resolver itself inlines no
  handler.
\<close>

theorem can_dispatch_iff_enabled_and_leaf:
  "(can_dispatch_torch_function tx args kwargs \<longleftrightarrow>
      torch_function_enabled tx \<and>
      ((\<exists>arg \<in> set args. \<exists>leaf \<in> set (tree_leaves arg).
          is_TensorWithTFOverrideVariable leaf)
       \<or> (\<exists>kv \<in> set kwargs. \<exists>leaf \<in> set (tree_leaves (snd kv)).
          is_TensorWithTFOverrideVariable leaf)))
   \<and> ((\<forall>arg \<in> set args. \<forall>leaf \<in> set (tree_leaves arg).
          \<not> is_TensorWithTFOverrideVariable leaf)
       \<and> (\<forall>kv \<in> set kwargs. \<forall>leaf \<in> set (tree_leaves (snd kv)).
          \<not> is_TensorWithTFOverrideVariable leaf)
      \<longrightarrow> \<not> can_dispatch_torch_function tx args kwargs
          \<and> inlined (snd (dispatch_torch_function h tx fn args kwargs)) = inlined tx)"
proof -
  have leaves: "set (all_args args kwargs)
      = (\<Union>arg \<in> set args. set (tree_leaves arg))
        \<union> (\<Union>kv \<in> set kwargs. set (tree_leaves (snd kv)))"
    by (simp add: all_args_def)
  have a: "can_dispatch_torch_function tx args kwargs \<longleftrightarrow>
      torch_function_enabled tx \<and>
      ((\<exists>arg \<in> set args. \<exists>leaf \<in> set (tree_leaves arg).
          is_TensorWithTFOverrideVariable leaf)
       \<or> (\<exists>kv \<in> set kwargs. \<exists>leaf \<in> set (tree_leaves (snd kv)).
          is_TensorWithTFOverrideVariable leaf))"
    unfolding can_dispatch_torch_function_def list_ex_iff leaves by auto
  have b: "\<not> can_dispatch_torch_function tx args kwargs
      \<and> inlined (snd (dispatch_torch_function h tx fn args kwargs)) = inlined tx"
    if none: "(\<forall>arg \<in> set args. \<forall>leaf \<in> set (tree_leaves arg).
          \<not> is_TensorWithTFOverrideVariable leaf)
       \<and> (\<forall>kv \<in> set kwargs. \<forall>leaf \<in> set (tree_leaves (snd kv)).
          \<not> is_TensorWithTFOverrideVariable leaf)"
  proof -
    from none have all: "\<forall>leaf \<in> set (all_args args kwargs).
        \<not> is_TensorWithTFOverrideVariable leaf"
      unfolding leaves by auto
    then have "filter is_TensorWithTFOverrideVariable (all_args args kwargs) = []"
      by (simp add: filter_empty_conv)
    then have "overloaded_args args kwargs = []"
      by (simp add: overloaded_args_def get_overloaded_args_Nil)
    then have "inlined (snd (dispatch_torch_function h tx fn args kwargs)) = inlined tx"
      by (simp add: dispatch_torch_function_def)
    moreover from none have "\<not> can_dispatch_torch_function tx args kwargs"
      unfolding a by auto
    ultimately show ?thesis by simp
  qed
  from b have b': "(\<forall>arg \<in> set args. \<forall>leaf \<in> set (tree_leaves arg).
          \<not> is_TensorWithTFOverrideVariable leaf)
       \<and> (\<forall>kv \<in> set kwargs. \<forall>leaf \<in> set (tree_leaves (snd kv)).
          \<not> is_TensorWithTFOverrideVariable leaf)
      \<longrightarrow> \<not> can_dispatch_torch_function tx args kwargs
          \<and> inlined (snd (dispatch_torch_function h tx fn args kwargs)) = inlined tx"
    by (intro impI)
  from a b' show ?thesis by (rule conjI)
qed

theorem can_dispatch_iff_enabled_and_leaf_witness:
  "can_dispatch_torch_function (ex_tx True)
      [ListVariable [ConstantVariable PyNone, TupleVariable [ex_a]]] []
   \<and> can_dispatch_torch_function (ex_tx True)
      [ConstantVariable (PyInt 1)] [(''out'', ex_a)]
   \<and> can_dispatch_torch_function (ex_tx True)
      [] [(''alpha'', ConstantVariable (PyInt 1)),
          (''out'', ConstDictVariable [(''k'', ListVariable [ex_c])])]
   \<and> \<not> can_dispatch_torch_function (ex_tx False)
      [ListVariable [ConstantVariable PyNone, TupleVariable [ex_a]]] [(''out'', ex_a)]
   \<and> \<not> can_dispatch_torch_function (ex_tx True)
      [ListVariable [ConstantVariable PyNone]] [(''out'', ConstantVariable (PyInt 1))]
   \<and> inlined (snd (dispatch_torch_function ex_host (ex_tx True) (ex_fn 0)
        [ListVariable [ConstantVariable PyNone]] [(''out'', ConstantVariable (PyInt 1))])) = []"
  using can_dispatch_iff_enabled_and_leaf [of "ex_tx True"
      "[ListVariable [ConstantVariable PyNone, TupleVariable [ex_a]]]" "[]" ex_host "ex_fn 0"]
    can_dispatch_iff_enabled_and_leaf [of "ex_tx True"
      "[ConstantVariable (PyInt 1)]" "[(''out'', ex_a)]" ex_host "ex_fn 0"]
    can_dispatch_iff_enabled_and_leaf [of "ex_tx True"
      "[]" "[(''alpha'', ConstantVariable (PyInt 1)),
             (''out'', ConstDictVariable [(''k'', ListVariable [ex_c])])]" ex_host "ex_fn 0"]
    can_dispatch_iff_enabled_and_leaf [of "ex_tx False"
      "[ListVariable [ConstantVariable PyNone, TupleVariable [ex_a]]]" "[(''out'', ex_a)]"
      ex_host "ex_fn 0"]
    can_dispatch_iff_enabled_and_leaf [of "ex_tx True"
      "[ListVariable [ConstantVariable PyNone]]" "[(''out'', ConstantVariable (PyInt 1))]"
      ex_host "ex_fn 0"]
  by (simp add: ex_a_def ex_c_def ex_tx_def)

text \<open>
  C1. The resolver inlines the handlers in the order of \<open>overloaded_args\<close>, each with the
  function, the tuple of all overload types, the original positional arguments and the
  original keyword arguments. If the handlers of a prefix all return the NotImplemented
  constant and the next one returns another value, that value is the result and exactly
  the handlers up to it were inlined, in order; if every handler returns NotImplemented,
  all were inlined in order and the call fails with the "All __torch_function__ overrides
  ... returned NotImplemented" error, which carries the function and both argument
  collections.
\<close>

theorem dispatch_first_accepting_handler:
  "(let ovl = overloaded_args args kwargs;
        types = TupleVariable (map subclass_type_var ovl);
        tf_args = (\<lambda>arg. [subclass_type_var arg, fn, types, TupleVariable args]);
        answer = (\<lambda>arg. inline_user_function_return h (torch_function_fn arg) (tf_args arg)
                    kwargs);
        call = (\<lambda>arg. (torch_function_fn arg, tf_args arg, kwargs))
    in (\<forall>pre arg post res.
          ovl = pre @ arg # post
          \<and> (\<forall>b \<in> set pre. answer b = Inr (ConstantVariable NotImplemented))
          \<and> answer arg = Inr res \<and> res \<noteq> ConstantVariable NotImplemented
          \<longrightarrow> dispatch_torch_function h tx fn args kwargs
                = (Inr res, tx\<lparr>inlined := inlined tx @ map call (pre @ [arg])\<rparr>))
     \<and> ((\<forall>b \<in> set ovl. answer b = Inr (ConstantVariable NotImplemented))
          \<longrightarrow> dispatch_torch_function h tx fn args kwargs
                = (Inl (Unsupported (AllNotImplemented fn args kwargs)),
                   tx\<lparr>inlined := inlined tx @ map call ovl\<rparr>)))"
proof -
  define ovl where "ovl = overloaded_args args kwargs"
  define types where "types = TupleVariable (map subclass_type_var ovl)"
  define answer where "answer = (\<lambda>arg. inline_user_function_return h (torch_function_fn arg)
      [subclass_type_var arg, fn, types, TupleVariable args] kwargs)"
  define call where "call = (\<lambda>arg. (torch_function_fn arg,
      [subclass_type_var arg, fn, types, TupleVariable args], kwargs))"
  have d: "dispatch_torch_function h tx fn args kwargs
      = dispatch_loop h tx fn types args kwargs ovl"
    by (simp add: dispatch_torch_function_def ovl_def types_def Let_def)
  have skip: "dispatch_loop h tx fn types args kwargs (pre @ rest)
      = dispatch_loop h (tx\<lparr>inlined := inlined tx @ map call pre\<rparr>) fn types args kwargs rest"
    if "\<forall>b \<in> set pre. answer b = Inr (ConstantVariable NotImplemented)" for pre rest
    using that dispatch_loop_declined [of pre h fn types args kwargs tx rest]
    by (simp add: answer_def call_def)
  have first: "dispatch_torch_function h tx fn args kwargs
      = (Inr res, tx\<lparr>inlined := inlined tx @ map call (pre @ [arg])\<rparr>)"
    if "ovl = pre @ arg # post"
      "\<forall>b \<in> set pre. answer b = Inr (ConstantVariable NotImplemented)"
      "answer arg = Inr res" "res \<noteq> ConstantVariable NotImplemented"
    for pre arg post res
  proof -
    have "answer arg = Inr res" by (rule that(3))
    then show ?thesis
      unfolding d that(1) skip [OF that(2)] using that(4)
      by (simp add: self_call_torch_function_eq answer_def call_def)
  qed
  have none: "dispatch_torch_function h tx fn args kwargs
      = (Inl (Unsupported (AllNotImplemented fn args kwargs)),
         tx\<lparr>inlined := inlined tx @ map call ovl\<rparr>)"
    if "\<forall>b \<in> set ovl. answer b = Inr (ConstantVariable NotImplemented)"
    using skip [OF that, of "[]"] by (simp add: d)
  have "(\<forall>pre arg post res.
          ovl = pre @ arg # post
          \<and> (\<forall>b \<in> set pre. answer b = Inr (ConstantVariable NotImplemented))
          \<and> answer arg = Inr res \<and> res \<noteq> ConstantVariable NotImplemented
          \<longrightarrow> dispatch_torch_function h tx fn args kwargs
                = (Inr res, tx\<lparr>inlined := inlined tx @ map call (pre @ [arg])\<rparr>))
     \<and> ((\<forall>b \<in> set ovl. answer b = Inr (ConstantVariable NotImplemented))
          \<longrightarrow> dispatch_torch_function h tx fn args kwargs
                = (Inl (Unsupported (AllNotImplemented fn args kwargs)),
                   tx\<lparr>inlined := inlined tx @ map call ovl\<rparr>))"
  proof (intro conjI allI impI)
    fix pre arg post res
    assume "ovl = pre @ arg # post
          \<and> (\<forall>b \<in> set pre. answer b = Inr (ConstantVariable NotImplemented))
          \<and> answer arg = Inr res \<and> res \<noteq> ConstantVariable NotImplemented"
    then show "dispatch_torch_function h tx fn args kwargs
                = (Inr res, tx\<lparr>inlined := inlined tx @ map call (pre @ [arg])\<rparr>)"
      using first [of pre arg post res] by (elim conjE)
  next
    assume "\<forall>b \<in> set ovl. answer b = Inr (ConstantVariable NotImplemented)"
    then show "dispatch_torch_function h tx fn args kwargs
                = (Inl (Unsupported (AllNotImplemented fn args kwargs)),
                   tx\<lparr>inlined := inlined tx @ map call ovl\<rparr>)"
      by (rule none)
  qed
  then show ?thesis
    unfolding Let_def ovl_def types_def answer_def call_def .
qed


lemmas ex_defs = ex_meta_def ex_Tensor_def ex_A_def ex_B_def ex_C_def ex_fn_def ex_a_def ex_b_def ex_c_def
  ex_inline_def ex_host_def ex_tx_def

lemmas overload_eval = overloaded_args_def all_args_def get_overloaded_args_def
  subclass_precedence.simps extract_Nil_code extract_Cons_code strict_subclass_def
  issubclass_def

theorem dispatch_first_accepting_handler_witness:
  "dispatch_torch_function ex_host (ex_tx True) (ex_fn 0) [ex_a, ex_c] []
     = (Inr (ConstantVariable (PyInt 9)),
        (ex_tx True)\<lparr>inlined :=
          [(ex_fn 2, [subclass_type_var ex_a, ex_fn 0,
              TupleVariable [subclass_type_var ex_a, subclass_type_var ex_c],
              TupleVariable [ex_a, ex_c]], []),
           (ex_fn 4, [subclass_type_var ex_c, ex_fn 0,
              TupleVariable [subclass_type_var ex_a, subclass_type_var ex_c],
              TupleVariable [ex_a, ex_c]], [])]\<rparr>)
   \<and> dispatch_torch_function ex_host (ex_tx True) (ex_fn 0) [ex_a] []
     = (Inl (Unsupported (AllNotImplemented (ex_fn 0) [ex_a] [])),
        (ex_tx True)\<lparr>inlined :=
          [(ex_fn 2, [subclass_type_var ex_a, ex_fn 0,
              TupleVariable [subclass_type_var ex_a], TupleVariable [ex_a]], [])]\<rparr>)"
proof -
  have o1: "overloaded_args [ex_a, ex_c] [] = [ex_a, ex_c]"
    by (simp add: overload_eval ex_defs)
  have o2: "overloaded_args [ex_a] [] = [ex_a]"
    by (simp add: overload_eval ex_defs)
  note t1 = dispatch_first_accepting_handler [where args = "[ex_a, ex_c]" and kwargs = "[]"
      and fn = "ex_fn 0" and h = ex_host and tx = "ex_tx True", unfolded Let_def o1,
      THEN conjunct1, rule_format, of "[ex_a]" ex_c "[]" "ConstantVariable (PyInt 9)"]
  note t2 = dispatch_first_accepting_handler [where args = "[ex_a]" and kwargs = "[]"
      and fn = "ex_fn 0" and h = ex_host and tx = "ex_tx True", unfolded Let_def o2,
      THEN conjunct2, rule_format]
  have r1: "dispatch_torch_function ex_host (ex_tx True) (ex_fn 0) [ex_a, ex_c] []
     = (Inr (ConstantVariable (PyInt 9)),
        (ex_tx True)\<lparr>inlined :=
          [(ex_fn 2, [subclass_type_var ex_a, ex_fn 0,
              TupleVariable [subclass_type_var ex_a, subclass_type_var ex_c],
              TupleVariable [ex_a, ex_c]], []),
           (ex_fn 4, [subclass_type_var ex_c, ex_fn 0,
              TupleVariable [subclass_type_var ex_a, subclass_type_var ex_c],
              TupleVariable [ex_a, ex_c]], [])]\<rparr>)"
    using t1 by (simp add: ex_defs)
  have r2: "dispatch_torch_function ex_host (ex_tx True) (ex_fn 0) [ex_a] []
     = (Inl (Unsupported (AllNotImplemented (ex_fn 0) [ex_a] [])),
        (ex_tx True)\<lparr>inlined :=
          [(ex_fn 2, [subclass_type_var ex_a, ex_fn 0,
              TupleVariable [subclass_type_var ex_a], TupleVariable [ex_a]], [])]\<rparr>)"
    using t2 by (simp add: ex_defs)
  show ?thesis using r1 r2 by (rule conjI)
qed

text \<open>
  C5, as the spec states it, fails on \<^verbatim>\<open>var_getattr\<close>: with the flag off, the deny-list
  guard and the override guard still run before the flag is read. Here the base tensor
  variable answers the attribute access, and the tracked value rejects it.
\<close>

theorem disabled_bypass_counterexample:
  "\<not> torch_function_enabled (ex_tx False)
   \<and> external (TensorVariable_var_getattr ex_host (ex_tx False) ex_b ''grad'')
       = Inr (ConstantVariable PyNone)
   \<and> var_getattr ex_host (ex_tx False) ex_b ''grad''
       = (Inl (Unsupported (AccessNotSupported ''grad'')), ex_tx False)
   \<and> external (TensorVariable_var_getattr ex_host (ex_tx False) ex_b ''add'')
       = Inr (ConstantVariable PyNone)
   \<and> var_getattr ex_host (ex_tx False) ex_b ''add''
       = (Inl (Unsupported (AccessOverridden ''add'')), ex_tx False)"
  by (simp add: var_getattr_def is_attr_overidden_def getattr_static_def python_type_def
      ex_defs)

text \<open>
  C5, amended. With the flag off: no call site is eligible for dispatch; an attribute
  access is handed to the base tensor variable when its name passes the guardrails (not in
  the deny-list, present on the base tensor class, not overridden on the tracked class),
  and is rejected by the first guardrail it fails otherwise; either way it inlines no
  handler and leaves the tracing context as it was. Nothing is said here about a method
  call with the flag off.
\<close>

theorem disabled_bypass:
  assumes "\<not> torch_function_enabled tx"
  shows "\<not> can_dispatch_torch_function tx args kwargs
    \<and> var_getattr h tx self name
        = (if name \<in> set (banned_attrs h) \<or> Tensor_getattr h name = None
           then (Inl (Unsupported (AccessNotSupported name)), tx)
           else if is_attr_overidden h self name
           then (Inl (Unsupported (AccessOverridden name)), tx)
           else (external (TensorVariable_var_getattr h tx self name), tx))"
  using assms
  by (simp add: can_dispatch_torch_function_def var_getattr_def)

theorem disabled_bypass_witness:
  "\<not> can_dispatch_torch_function (ex_tx False) [ex_a] [(''out'', ex_c)]
   \<and> var_getattr ex_host (ex_tx False) ex_a ''shape''
       = (Inr (ConstantVariable PyNone), ex_tx False)
   \<and> var_getattr ex_host (ex_tx False) ex_a ''grad''
       = (Inl (Unsupported (AccessNotSupported ''grad'')), ex_tx False)
   \<and> var_getattr ex_host (ex_tx False) ex_b ''add''
       = (Inl (Unsupported (AccessOverridden ''add'')), ex_tx False)"
proof -
  have off: "\<not> torch_function_enabled (ex_tx False)"
    by (simp add: ex_tx_def)
  show ?thesis
    using disabled_bypass [OF off, of "[ex_a]" "[(''out'', ex_c)]" ex_host ex_a "''shape''"]
      disabled_bypass [OF off, of "[ex_a]" "[(''out'', ex_c)]" ex_host ex_a "''grad''"]
      disabled_bypass [OF off, of "[ex_a]" "[(''out'', ex_c)]" ex_host ex_b "''add''"]
    by (simp add: is_attr_overidden_def getattr_static_def python_type_def ex_defs)
qed

text \<open>
  With the flag off, \<^verbatim>\<open>call_method\<close> reads \<^verbatim>\<open>self.tensor_variable\<close> before anything else:
  where the attribute is absent the call raises \<^verbatim>\<open>AttributeError\<close>, whatever the method,
  and the tracing context is unchanged.
\<close>

lemma call_method_disabled_no_tensor_variable:
  "\<not> torch_function_enabled tx \<Longrightarrow> tensor_variable h self = None \<Longrightarrow>
     call_method h tx self name args kwargs = (Inl (AttributeError ''tensor_variable''), tx)"
  by (simp add: call_method_def)

text \<open>
  C6, as the spec states it, fails in two places. The class \<open>ex_B\<close> stores its own \<^verbatim>\<open>add\<close>
  and \<^verbatim>\<open>grad\<close>, different from those of the base tensor class. An attribute access to
  the deny-listed \<^verbatim>\<open>grad\<close> fails with the deny-list error, not with the override error;
  and a method call of \<^verbatim>\<open>add\<close> with the flag off never reaches the override check: it
  fails on the read of \<^verbatim>\<open>self.tensor_variable\<close>.
\<close>

theorem overridden_rejected_counterexample:
  "getattr_static (python_type ex_b) ''grad'' = Some (Descriptor 31)
   \<and> Tensor_getattr ex_host ''grad'' = Some (Descriptor 11)
   \<and> var_getattr ex_host (ex_tx True) ex_b ''grad''
       = (Inl (Unsupported (AccessNotSupported ''grad'')), ex_tx True)
   \<and> getattr_static (python_type ex_b) ''add'' = Some (Descriptor 30)
   \<and> Tensor_getattr ex_host ''add'' = Some (Descriptor 10)
   \<and> call_method ex_host (ex_tx False) ex_b ''add'' [] []
       = (Inl (AttributeError ''tensor_variable''), ex_tx False)"
  by (simp add: call_method_def var_getattr_def getattr_static_def python_type_def ex_defs)

text \<open>
  C6, amended. Let static lookup on the tracked class find an implementation that differs
  from the one the base tensor class has under the same name. Then an attribute access
  fails with the "Accessing overidden method/attribute" error unless the name is in the
  deny-list (there the deny-list error wins), whether override dispatch is enabled or not;
  and a method call fails with the "Calling overidden method" error when override dispatch
  is enabled. The tracing context is unchanged by the failure. Nothing is said here about
  a method call with the flag off.
\<close>

theorem overridden_rejected:
  assumes "getattr_static (python_type self) name = Some attr_val"
    and "Tensor_getattr h name = Some base_val"
    and "attr_val \<noteq> base_val"
  shows "var_getattr h tx self name
        = (if name \<in> set (banned_attrs h)
           then (Inl (Unsupported (AccessNotSupported name)), tx)
           else (Inl (Unsupported (AccessOverridden name)), tx))
    \<and> (torch_function_enabled tx \<longrightarrow>
          call_method h tx self name args kwargs
            = (Inl (Unsupported (CallOverridden name)), tx))"
  using assms
  by (simp add: var_getattr_def call_method_def is_attr_overidden_def)

theorem overridden_rejected_witness:
  "getattr_static (python_type ex_b) ''add'' = Some (Descriptor 30)
   \<and> Tensor_getattr ex_host ''add'' = Some (Descriptor 10)
   \<and> var_getattr ex_host (ex_tx True) ex_b ''add''
       = (Inl (Unsupported (AccessOverridden ''add'')), ex_tx True)
   \<and> var_getattr ex_host (ex_tx False) ex_b ''add''
       = (Inl (Unsupported (AccessOverridden ''add'')), ex_tx False)
   \<and> call_method ex_host (ex_tx True) ex_b ''add'' [ex_a] []
       = (Inl (Unsupported (CallOverridden ''add'')), ex_tx True)
   \<and> getattr_static (python_type ex_a) ''mro'' = Some (Descriptor 91)
   \<and> Tensor_getattr ex_host ''mro'' = Some (PlainObject 92)
   \<and> var_getattr ex_host (ex_tx True) ex_a ''mro''
       = (Inl (Unsupported (AccessOverridden ''mro'')), ex_tx True)"
proof -
  have s: "getattr_static (python_type ex_b) ''add'' = Some (Descriptor 30)"
    by (simp add: getattr_static_def python_type_def ex_defs)
  have t: "Tensor_getattr ex_host ''add'' = Some (Descriptor 10)"
    by (simp add: ex_defs)
  have d: "Descriptor 30 \<noteq> Descriptor 10"
    by simp
  have s': "getattr_static (python_type ex_a) ''mro'' = Some (Descriptor 91)"
    by (simp add: getattr_static_def python_type_def ex_defs)
  have t': "Tensor_getattr ex_host ''mro'' = Some (PlainObject 92)"
    by (simp add: ex_defs)
  have d': "Descriptor 91 \<noteq> PlainObject 92"
    by simp
  show ?thesis
    using s t s' t' overridden_rejected [OF s t d, of "ex_tx True" "[ex_a]" "[]"]
      overridden_rejected [OF s t d, of "ex_tx False" "[ex_a]" "[]"]
      overridden_rejected [OF s' t' d', of "ex_tx True" "[]" "[]"]
    by (simp add: ex_host_def ex_tx_def)
qed

lemma first_occurrence_same_type:
  "\<forall>x \<in> set xs. ty x \<in> set (map ty work) \<Longrightarrow> first_occurrence ty work xs = work"
  by (induction xs arbitrary: work) simp_all

lemma overloaded_args_self_only:
  assumes "is_TensorWithTFOverrideVariable self"
    and "\<forall>leaf \<in> set (all_args args kwargs).
           is_TensorWithTFOverrideVariable leaf \<longrightarrow> class_type leaf = class_type self"
  shows "overloaded_args (self # args) kwargs = [self]"
proof -
  have leaves: "tree_leaves self = [self]"
    using assms(1) by (cases self) simp_all
  have all: "all_args (self # args) kwargs = self # all_args args kwargs"
    by (simp add: all_args_def leaves)
  have "first_occurrence class_type []
          (filter is_TensorWithTFOverrideVariable (all_args (self # args) kwargs)) = [self]"
    using assms by (simp add: all first_occurrence_same_type)
  moreover have "subclass_precedence class_type [self] = [self]"
    by (rule subclass_precedence_fixed) (simp add: extract_Nil_code)
  ultimately show ?thesis
    by (simp add: overloaded_args_def get_overloaded_args_def)
qed

text \<open>
  C8, as the spec states it, fails for method calls and presupposes a resolver call that an
  attribute access does not make. A method call on \<open>ex_a\<close>, of declared type \<open>ex_A\<close>,
  with an argument of the unrelated class \<open>ex_C\<close> inlines both handlers with the
  two-element type tuple of the classes \<open>ex_A\<close> and \<open>ex_C\<close>; and an attribute access
  whose handler declines returns the NotImplemented constant itself, where the resolver
  would have raised.
\<close>

theorem trampoline_synthetic_call_counterexample:
  "inlined (snd (call_method ex_host (ex_tx True) ex_a ''add'' [ex_c] []))
     = [(ex_fn 2,
         [UserDefinedClassVariable ex_A (Some (GlobalSource (global_mangled_class_name ex_a))),
          BuiltVariable (Descriptor 10) None,
          TupleVariable
            [UserDefinedClassVariable ex_A
               (Some (GlobalSource (global_mangled_class_name ex_a))),
             UserDefinedClassVariable ex_C
               (Some (GlobalSource (global_mangled_class_name ex_c)))],
          TupleVariable [ex_a, ex_c]], []),
        (ex_fn 4,
         [UserDefinedClassVariable ex_C (Some (GlobalSource (global_mangled_class_name ex_c))),
          BuiltVariable (Descriptor 10) None,
          TupleVariable
            [UserDefinedClassVariable ex_A
               (Some (GlobalSource (global_mangled_class_name ex_a))),
             UserDefinedClassVariable ex_C
               (Some (GlobalSource (global_mangled_class_name ex_c)))],
          TupleVariable [ex_a, ex_c]], [])]
   \<and> class_type ex_a = ex_A
   \<and> OverloadOrder [ex_a, ex_c] [] = [ex_A, ex_C]
   \<and> fst (var_getattr ex_host (ex_tx True) ex_a ''shape'')
       = Inr (ConstantVariable NotImplemented)
   \<and> fst (dispatch_torch_function ex_host (ex_tx True)
             (BuiltVariable (MethodWrapperGet (Descriptor 12)) None) [ex_a] [])
       = Inl (Unsupported (AllNotImplemented
             (BuiltVariable (MethodWrapperGet (Descriptor 12)) None) [ex_a] []))"
proof -
  have o1: "overloaded_args [ex_a, ex_c] [] = [ex_a, ex_c]"
    by (simp add: overload_eval ex_defs)
  have o2: "overloaded_args [ex_a] [] = [ex_a]"
    by (simp add: overload_eval ex_defs)
  have m: "method_func_var ex_host ex_a ''add'' = Inr (BuiltVariable (Descriptor 10) None)"
    by (simp add: method_func_var_def SourcelessBuilder_def ex_defs)
  have n: "\<not> is_attr_overidden ex_host ex_a ''add''"
    by (simp add: is_attr_overidden_def getattr_static_def python_type_def ex_defs)
  have c: "call_method ex_host (ex_tx True) ex_a ''add'' [ex_c] []
      = dispatch_torch_function ex_host (ex_tx True) (BuiltVariable (Descriptor 10) None)
          [ex_a, ex_c] []"
    using m n by (simp add: call_method_def ex_tx_def)
  have 1: "inlined (snd (call_method ex_host (ex_tx True) ex_a ''add'' [ex_c] []))
     = [(ex_fn 2, [subclass_type_var ex_a, BuiltVariable (Descriptor 10) None,
           TupleVariable [subclass_type_var ex_a, subclass_type_var ex_c],
           TupleVariable [ex_a, ex_c]], []),
        (ex_fn 4, [subclass_type_var ex_c, BuiltVariable (Descriptor 10) None,
           TupleVariable [subclass_type_var ex_a, subclass_type_var ex_c],
           TupleVariable [ex_a, ex_c]], [])]"
    unfolding c dispatch_torch_function_def Let_def o1
    by (simp add: self_call_torch_function_eq
        ex_host_def ex_inline_def ex_fn_def ex_a_def ex_c_def ex_tx_def)
  have sa: "subclass_type_var ex_a
      = UserDefinedClassVariable ex_A (Some (GlobalSource (global_mangled_class_name ex_a)))"
    and sc: "subclass_type_var ex_c
      = UserDefinedClassVariable ex_C (Some (GlobalSource (global_mangled_class_name ex_c)))"
    by (simp_all add: subclass_type_var_def ex_a_def ex_c_def)
  have ca: "class_type ex_a = ex_A"
    by (simp add: ex_a_def)
  have 2: "OverloadOrder [ex_a, ex_c] [] = [ex_A, ex_C]"
    by (simp add: OverloadOrder_def o1) (simp add: ex_a_def ex_c_def)
  have 3: "fst (var_getattr ex_host (ex_tx True) ex_a ''shape'')
       = Inr (ConstantVariable NotImplemented)"
    by (simp add: var_getattr_def is_attr_overidden_def getattr_static_def python_type_def
        getattr_get_fn_def SourcelessBuilder_def self_call_torch_function_eq ex_defs)
  have 4: "fst (dispatch_torch_function ex_host (ex_tx True)
             (BuiltVariable (MethodWrapperGet (Descriptor 12)) None) [ex_a] [])
       = Inl (Unsupported (AllNotImplemented
             (BuiltVariable (MethodWrapperGet (Descriptor 12)) None) [ex_a] []))"
    unfolding dispatch_torch_function_def Let_def o2
    by (simp add: self_call_torch_function_eq
        ex_host_def ex_inline_def ex_fn_def ex_a_def ex_tx_def)
  from 1 [unfolded sa sc] ca 2 3 4 show ?thesis by (intro conjI)
qed


lemma set_all_args:
  "set (all_args args kwargs)
     = (\<Union>arg \<in> set args. set (tree_leaves arg))
       \<union> (\<Union>kv \<in> set kwargs. set (tree_leaves (snd kv)))"
  by (simp add: all_args_def)

text \<open>
  C8, amended. Let the name be present on the base tensor class with implementation
  \<open>base_val\<close>, not overridden on the tracked class, and let override dispatch be enabled.
  If the tracked value has a source and static lookup on its declared type does not find
  the name, both the attribute access and the method call raise \<^verbatim>\<open>AttributeError\<close>.
  Otherwise:

  An attribute access (name not in the deny-list) raises \<^verbatim>\<open>AttributeError\<close> and inlines no
  handler when \<open>base_val\<close> has no \<^verbatim>\<open>__get__\<close> entry point; else it inlines the handler of
  the tracked value directly, once, without the resolver: the function is the \<^verbatim>\<open>__get__\<close>
  entry point of \<open>base_val\<close>, the type tuple is the one-element tuple holding the class
  variable of the declared type of the tracked value, the positional arguments are the
  tracked value alone and there are no keyword arguments.

  A method call goes to the resolver with the function \<open>base_val\<close>, the tracked value
  prepended to the positional arguments and the keyword arguments of the call; the type
  tuple is the overload order of these arguments, which is the one-element tuple of the
  declared type of the tracked value when no overriding value of another class occurs
  among the leaves of the arguments and keyword values, and then the first handler inlined
  is that of the tracked value.
\<close>

theorem trampoline_synthetic_call:
  assumes "Tensor_getattr h name = Some base_val"
    and "\<not> is_attr_overidden h self name"
    and "torch_function_enabled tx"
    and "is_TensorWithTFOverrideVariable self"
  shows "(name \<notin> set (banned_attrs h) \<longrightarrow>
          var_getattr h tx self name
            = (if source self \<noteq> None \<and> getattr_static (python_type self) name = None
               then (Inl (AttributeError name), tx)
               else case dunder_get base_val of
                 Inl e \<Rightarrow> (Inl e, tx)
               | Inr g \<Rightarrow>
                   tx_inline_user_function_return h tx (torch_function_fn self)
                     [UserDefinedClassVariable (class_type self)
                        (Some (GlobalSource (global_mangled_class_name self))),
                      BuiltVariable g
                        (map_option
                           (\<lambda>src. AttrSource (AttrSource (AttrSource src ''__class__'') name)
                              ''__get__'')
                           (source self)),
                      TupleVariable
                        [UserDefinedClassVariable (class_type self)
                           (Some (GlobalSource (global_mangled_class_name self)))],
                      TupleVariable [self]]
                     []))
    \<and> call_method h tx self name args kwargs
        = (if source self \<noteq> None \<and> getattr_static (python_type self) name = None
           then (Inl (AttributeError name), tx)
           else dispatch_torch_function h tx
                  (BuiltVariable base_val
                     (map_option (\<lambda>src. AttrSource (AttrSource src ''__class__'') name)
                        (source self)))
                  (self # args) kwargs)
    \<and> ((source self = None \<or> getattr_static (python_type self) name \<noteq> None)
        \<and> (\<forall>arg \<in> set args. \<forall>leaf \<in> set (tree_leaves arg).
              is_TensorWithTFOverrideVariable leaf \<longrightarrow> class_type leaf = class_type self)
        \<and> (\<forall>kv \<in> set kwargs. \<forall>leaf \<in> set (tree_leaves (snd kv)).
              is_TensorWithTFOverrideVariable leaf \<longrightarrow> class_type leaf = class_type self)
        \<longrightarrow>
          OverloadOrder (self # args) kwargs = [class_type self]
          \<and> take 1 (drop (length (inlined tx))
                (inlined (snd (call_method h tx self name args kwargs))))
            = [(torch_function_fn self,
                [UserDefinedClassVariable (class_type self)
                   (Some (GlobalSource (global_mangled_class_name self))),
                 BuiltVariable base_val
                   (map_option (\<lambda>src. AttrSource (AttrSource src ''__class__'') name)
                      (source self)),
                 TupleVariable
                   [UserDefinedClassVariable (class_type self)
                      (Some (GlobalSource (global_mangled_class_name self)))],
                 TupleVariable (self # args)],
                kwargs)])"
proof -
  let ?lost = "source self \<noteq> None \<and> getattr_static (python_type self) name = None"
  let ?tv = "UserDefinedClassVariable (class_type self)
      (Some (GlobalSource (global_mangled_class_name self)))"
  have tv: "subclass_type_var self = ?tv"
    by (simp add: subclass_type_var_def)
  have same: "getattr_static (python_type self) name = Some base_val"
    if "source self = Some src" "\<not> ?lost" for src
    using that assms(1,2) by (auto simp: is_attr_overidden_def split: option.splits)
  have get_lost: "getattr_get_fn h self name = Inl (AttributeError name)" if ?lost
    using that by (auto simp: getattr_get_fn_def)
  have get_fn: "getattr_get_fn h self name
      = (case dunder_get base_val of
           Inl e \<Rightarrow> Inl e
         | Inr g \<Rightarrow>
             Inr (BuiltVariable g
               (map_option
                  (\<lambda>src. AttrSource (AttrSource (AttrSource src ''__class__'') name) ''__get__'')
                  (source self))))"
    if "\<not> ?lost"
    using that assms(1) same
    by (cases "source self")
      (auto simp: getattr_get_fn_def VariableBuilder_def SourcelessBuilder_def
        split: sum.splits)
  have attr: "var_getattr h tx self name
            = (if ?lost then (Inl (AttributeError name), tx)
               else case dunder_get base_val of
                 Inl e \<Rightarrow> (Inl e, tx)
               | Inr g \<Rightarrow>
                   tx_inline_user_function_return h tx (torch_function_fn self)
                     [?tv,
                      BuiltVariable g
                        (map_option
                           (\<lambda>src. AttrSource (AttrSource (AttrSource src ''__class__'') name)
                              ''__get__'')
                           (source self)),
                      TupleVariable [?tv],
                      TupleVariable [self]]
                     [])"
    if nb: "name \<notin> set (banned_attrs h)"
  proof (cases ?lost)
    case True
    have "var_getattr h tx self name = (Inl (AttributeError name), tx)"
      using nb assms(1,2,3) by (simp add: var_getattr_def get_lost [OF True])
    then show ?thesis
      unfolding if_P [OF True] .
  next
    case False
    have "var_getattr h tx self name
        = (case dunder_get base_val of
             Inl e \<Rightarrow> (Inl e, tx)
           | Inr g \<Rightarrow>
               tx_inline_user_function_return h tx (torch_function_fn self)
                 [?tv,
                  BuiltVariable g
                    (map_option
                       (\<lambda>src. AttrSource (AttrSource (AttrSource src ''__class__'') name)
                          ''__get__'')
                       (source self)),
                  TupleVariable [?tv],
                  TupleVariable [self]]
                 [])"
      using nb assms(1,2,3)
      by (simp add: var_getattr_def get_fn [OF False] self_call_torch_function_def
          call_torch_function_def Let_def tv split: sum.splits)
    then show ?thesis
      unfolding if_not_P [OF False] .
  qed
  let ?func_var = "BuiltVariable base_val
      (map_option (\<lambda>src. AttrSource (AttrSource src ''__class__'') name) (source self))"
  have func_lost: "method_func_var h self name = Inl (AttributeError name)" if ?lost
    using that by (auto simp: method_func_var_def)
  have func: "method_func_var h self name = Inr ?func_var" if "\<not> ?lost"
    using that assms(1) same
    by (cases "source self")
      (auto simp: method_func_var_def VariableBuilder_def SourcelessBuilder_def)
  have meth: "call_method h tx self name args kwargs
      = (if ?lost then (Inl (AttributeError name), tx)
         else dispatch_torch_function h tx ?func_var (self # args) kwargs)"
  proof (cases ?lost)
    case True
    have "call_method h tx self name args kwargs = (Inl (AttributeError name), tx)"
      using assms(2,3) by (simp add: call_method_def func_lost [OF True])
    then show ?thesis
      unfolding if_P [OF True] .
  next
    case False
    have "call_method h tx self name args kwargs
        = dispatch_torch_function h tx ?func_var (self # args) kwargs"
      using assms(2,3) by (simp add: call_method_def func [OF False])
    then show ?thesis
      unfolding if_not_P [OF False] .
  qed
  have single: "OverloadOrder (self # args) kwargs = [class_type self]
      \<and> take 1 (drop (length (inlined tx))
            (inlined (snd (call_method h tx self name args kwargs))))
        = [(torch_function_fn self,
            [?tv, ?func_var, TupleVariable [?tv], TupleVariable (self # args)],
            kwargs)]"
    if h: "(source self = None \<or> getattr_static (python_type self) name \<noteq> None)
        \<and> (\<forall>arg \<in> set args. \<forall>leaf \<in> set (tree_leaves arg).
              is_TensorWithTFOverrideVariable leaf \<longrightarrow> class_type leaf = class_type self)
        \<and> (\<forall>kv \<in> set kwargs. \<forall>leaf \<in> set (tree_leaves (snd kv)).
              is_TensorWithTFOverrideVariable leaf \<longrightarrow> class_type leaf = class_type self)"
  proof -
    from h have nl: "\<not> ?lost" by auto
    from h have "\<forall>leaf \<in> set (all_args args kwargs).
        is_TensorWithTFOverrideVariable leaf \<longrightarrow> class_type leaf = class_type self"
      unfolding set_all_args by auto
    with assms(4) have o: "overloaded_args (self # args) kwargs = [self]"
      by (rule overloaded_args_self_only)
    have m: "call_method h tx self name args kwargs
        = dispatch_torch_function h tx ?func_var (self # args) kwargs"
      unfolding meth if_not_P [OF nl] ..
    show ?thesis
      unfolding m
      by (cases "inline_user_function_return h (torch_function_fn self)
            [?tv, ?func_var, TupleVariable [?tv], TupleVariable (self # args)] kwargs")
        (simp_all add: OverloadOrder_def dispatch_torch_function_def Let_def o
          self_call_torch_function_eq tv)
  qed
  from attr have a: "name \<notin> set (banned_attrs h) \<longrightarrow>
          var_getattr h tx self name
            = (if ?lost then (Inl (AttributeError name), tx)
               else case dunder_get base_val of
                 Inl e \<Rightarrow> (Inl e, tx)
               | Inr g \<Rightarrow>
                   tx_inline_user_function_return h tx (torch_function_fn self)
                     [?tv,
                      BuiltVariable g
                        (map_option
                           (\<lambda>src. AttrSource (AttrSource (AttrSource src ''__class__'') name)
                              ''__get__'')
                           (source self)),
                      TupleVariable [?tv],
                      TupleVariable [self]]
                     [])"
    by (intro impI)
  from single have s: "(source self = None \<or> getattr_static (python_type self) name \<noteq> None)
        \<and> (\<forall>arg \<in> set args. \<forall>leaf \<in> set (tree_leaves arg).
              is_TensorWithTFOverrideVariable leaf \<longrightarrow> class_type leaf = class_type self)
        \<and> (\<forall>kv \<in> set kwargs. \<forall>leaf \<in> set (tree_leaves (snd kv)).
              is_TensorWithTFOverrideVariable leaf \<longrightarrow> class_type leaf = class_type self)
        \<longrightarrow>
        OverloadOrder (self # args) kwargs = [class_type self]
      \<and> take 1 (drop (length (inlined tx))
            (inlined (snd (call_method h tx self name args kwargs))))
        = [(torch_function_fn self,
            [?tv, ?func_var, TupleVariable [?tv], TupleVariable (self # args)],
            kwargs)]"
    by (intro impI)
  from a meth s show ?thesis by (intro conjI)
qed

theorem trampoline_synthetic_call_witness:
  "var_getattr ex_host (ex_tx True) ex_b ''shape''
     = (Inr (ConstantVariable (PyInt 7)),
        (ex_tx True)\<lparr>inlined :=
          [(ex_fn 3,
            [UserDefinedClassVariable ex_B (Some (GlobalSource ''__subclass_B_3'')),
             BuiltVariable (MethodWrapperGet (Descriptor 12))
               (Some (AttrSource
                  (AttrSource (AttrSource (LocalSource ''b'') ''__class__'') ''shape'')
                  ''__get__'')),
             TupleVariable
               [UserDefinedClassVariable ex_B (Some (GlobalSource ''__subclass_B_3''))],
             TupleVariable [ex_b]],
            [])]\<rparr>)
   \<and> var_getattr ex_host (ex_tx True) ex_a ''__doc__''
     = (Inl (AttributeError ''__get__''), ex_tx True)
   \<and> call_method ex_host (ex_tx True) ex_b ''shape'' [ex_b] []
     = dispatch_torch_function ex_host (ex_tx True)
         (BuiltVariable (Descriptor 12)
            (Some (AttrSource (AttrSource (LocalSource ''b'') ''__class__'') ''shape'')))
         [ex_b, ex_b] []
   \<and> OverloadOrder [ex_b, ex_b] [] = [ex_B]
   \<and> take 1 (inlined (snd (call_method ex_host (ex_tx True) ex_b ''shape'' [ex_b] [])))
     = [(ex_fn 3,
         [UserDefinedClassVariable ex_B (Some (GlobalSource ''__subclass_B_3'')),
          BuiltVariable (Descriptor 12)
            (Some (AttrSource (AttrSource (LocalSource ''b'') ''__class__'') ''shape'')),
          TupleVariable
            [UserDefinedClassVariable ex_B (Some (GlobalSource ''__subclass_B_3''))],
          TupleVariable [ex_b, ex_b]],
         [])]"
proof -
  have h1: "Tensor_getattr ex_host ''shape'' = Some (Descriptor 12)"
    by (simp add: ex_defs)
  have st: "getattr_static (python_type ex_b) ''shape'' = Some (Descriptor 12)"
    by (simp add: getattr_static_def python_type_def ex_defs)
  have h2: "\<not> is_attr_overidden ex_host ex_b ''shape''"
    by (simp add: is_attr_overidden_def st h1)
  have h3: "torch_function_enabled (ex_tx True)"
    by (simp add: ex_tx_def)
  have h4: "is_TensorWithTFOverrideVariable ex_b"
    by (simp add: ex_b_def)
  have nb: "''shape'' \<notin> set (banned_attrs ex_host)"
    by (simp add: ex_host_def)
  have src: "source ex_b = Some (LocalSource ''b'')" and cls: "class_type ex_b = ex_B"
    and fn: "torch_function_fn ex_b = ex_fn 3"
    by (simp_all add: ex_b_def)
  have nm: "global_mangled_class_name ex_b = ''__subclass_B_3''"
    by (simp add: global_mangled_class_name_def decimal.simps char_of_eq_iff ex_b_def ex_B_def)
  have ans: "inline_user_function_return ex_host (ex_fn 3) a k = Inr (ConstantVariable (PyInt 7))"
    for a k
    by (simp add: ex_host_def ex_inline_def)
  have hyp: "(source ex_b = None \<or> getattr_static (python_type ex_b) ''shape'' \<noteq> None)
      \<and> (\<forall>arg \<in> set [ex_b]. \<forall>leaf \<in> set (tree_leaves arg).
            is_TensorWithTFOverrideVariable leaf \<longrightarrow> class_type leaf = class_type ex_b)
      \<and> (\<forall>kv \<in> set ([] :: kwargs). \<forall>leaf \<in> set (tree_leaves (snd kv)).
            is_TensorWithTFOverrideVariable leaf \<longrightarrow> class_type leaf = class_type ex_b)"
    by (simp add: st) (simp add: ex_b_def)
  note t = trampoline_synthetic_call [OF h1 h2 h3 h4, where args = "[ex_b]" and kwargs = "[]"]
  note x = t [THEN conjunct1, THEN mp, OF nb]
  note y = t [THEN conjunct2, THEN conjunct1]
  note z = t [THEN conjunct2, THEN conjunct2, THEN mp, OF hyp]
  have 1: "var_getattr ex_host (ex_tx True) ex_b ''shape''
     = (Inr (ConstantVariable (PyInt 7)),
        (ex_tx True)\<lparr>inlined :=
          [(ex_fn 3,
            [UserDefinedClassVariable ex_B (Some (GlobalSource ''__subclass_B_3'')),
             BuiltVariable (MethodWrapperGet (Descriptor 12))
               (Some (AttrSource
                  (AttrSource (AttrSource (LocalSource ''b'') ''__class__'') ''shape'')
                  ''__get__'')),
             TupleVariable
               [UserDefinedClassVariable ex_B (Some (GlobalSource ''__subclass_B_3''))],
             TupleVariable [ex_b]],
            [])]\<rparr>)"
    unfolding x
    by (simp add: st src cls nm fn ans tx_inline_user_function_return_def)
      (simp add: ex_tx_def)
  have d1: "Tensor_getattr ex_host ''__doc__'' = Some (PlainObject 13)"
    by (simp add: ex_defs)
  have d2: "\<not> is_attr_overidden ex_host ex_a ''__doc__''"
    by (simp add: is_attr_overidden_def getattr_static_def python_type_def ex_defs)
  have d4: "is_TensorWithTFOverrideVariable ex_a"
    by (simp add: ex_a_def)
  have dnb: "''__doc__'' \<notin> set (banned_attrs ex_host)"
    by (simp add: ex_host_def)
  note w = trampoline_synthetic_call [OF d1 d2 h3 d4, where args = "[]" and kwargs = "[]",
      THEN conjunct1, THEN mp, OF dnb]
  have 5: "var_getattr ex_host (ex_tx True) ex_a ''__doc__''
     = (Inl (AttributeError ''__get__''), ex_tx True)"
    unfolding w by (simp add: ex_a_def)
  have 2: "call_method ex_host (ex_tx True) ex_b ''shape'' [ex_b] []
     = dispatch_torch_function ex_host (ex_tx True)
         (BuiltVariable (Descriptor 12)
            (Some (AttrSource (AttrSource (LocalSource ''b'') ''__class__'') ''shape'')))
         [ex_b, ex_b] []"
    using y by (simp add: src st)
  have 3: "OverloadOrder [ex_b, ex_b] [] = [ex_B]"
    using z [THEN conjunct1] by (simp add: cls)
  have 4: "take 1 (inlined (snd (call_method ex_host (ex_tx True) ex_b ''shape'' [ex_b] [])))
     = [(ex_fn 3,
         [UserDefinedClassVariable ex_B (Some (GlobalSource ''__subclass_B_3'')),
          BuiltVariable (Descriptor 12)
            (Some (AttrSource (AttrSource (LocalSource ''b'') ''__class__'') ''shape'')),
          TupleVariable
            [UserDefinedClassVariable ex_B (Some (GlobalSource ''__subclass_B_3''))],
          TupleVariable [ex_b, ex_b]],
         [])]"
    using z [THEN conjunct2] by (simp add: src cls nm fn ex_tx_def)
  from 1 5 2 3 4 show ?thesis by (intro conjI)
qed

subsection \<open>The overload order\<close>

lemma move_subclass_None_iff:
  "move_subclass ty xs = None \<longleftrightarrow>
     sorted_wrt (\<lambda>a b. \<not> strict_subclass (ty b) (ty a)) xs"
proof (induction xs)
  case Nil
  then show ?case by simp
next
  case (Cons a rest)
  show ?case
  proof (cases "List.extract (\<lambda>b. strict_subclass (ty b) (ty a)) rest")
    case None
    then have "move_subclass ty (a # rest) = map_option ((#) a) (move_subclass ty rest)"
      by simp
    moreover from None have "\<forall>b \<in> set rest. \<not> strict_subclass (ty b) (ty a)"
      by (simp add: extract_None_iff)
    ultimately show ?thesis using Cons.IH by simp
  next
    case (Some t)
    obtain pre b post where t: "t = (pre, b, post)" by (cases t)
    from Some t have "move_subclass ty (a # rest) = Some (b # a # pre @ post)"
      by simp
    moreover from Some t have "b \<in> set rest" "strict_subclass (ty b) (ty a)"
      by (auto simp: extract_Some_iff)
    ultimately show ?thesis by auto
  qed
qed


lemma subclass_precedence_sorted:
  "sorted_wrt (\<lambda>a b. \<not> strict_subclass (ty b) (ty a)) (subclass_precedence ty xs)"
proof (induction ty xs rule: subclass_precedence.induct)
  case (1 ty xs)
  show ?case
  proof (cases "move_subclass ty xs")
    case None
    then show ?thesis
      by (simp add: subclass_precedence_fixed move_subclass_None_iff [symmetric])
  next
    case (Some ys)
    then show ?thesis using "1.IH" by (simp add: subclass_precedence_step)
  qed
qed


lemma first_occurrence_set:
  "set (map ty (first_occurrence ty work xs)) = set (map ty work) \<union> set (map ty xs)"
  by (induction xs arbitrary: work) auto

lemma first_occurrence_distinct:
  "distinct (map ty work) \<Longrightarrow> distinct (map ty (first_occurrence ty work xs))"
  by (induction xs arbitrary: work) auto

lemma first_occurrence_prefix: "\<exists>s. first_occurrence ty work xs = work @ s"
proof (induction xs arbitrary: work)
  case Nil
  then show ?case by simp
next
  case (Cons x xs)
  from Cons [of work] Cons [of "work @ [x]"] show ?case by auto
qed




lemma overload_order_sorted:
  "sorted_wrt (\<lambda>X Y. \<not> strict_subclass Y X) (OverloadOrder args kwargs)"
  using subclass_precedence_sorted [of class_type]
  by (simp add: OverloadOrder_def overloaded_args_def get_overloaded_args_def sorted_wrt_map)

lemma sorted_wrt_precedes:
  assumes "sorted_wrt (\<lambda>X Y. \<not> R Y X) xs" and "X \<in> set xs" and "Y \<in> set xs" and "R Y X"
    and "\<not> R X X"
  shows "precedes Y X xs"
proof -
  from assms(2) obtain p q where xs: "xs = p @ X # q" "X \<notin> set p"
    by (auto dest: split_list_first)
  have "Y \<notin> set q"
    using assms(1,4) by (auto simp: xs sorted_wrt_append)
  moreover have "Y \<noteq> X" using assms(4,5) by auto
  ultimately have "Y \<in> set p" using assms(3) by (simp add: xs)
  moreover have "takeWhile (\<lambda>t. t \<noteq> X) xs = p"
    using xs(2) by (simp add: xs takeWhile_append)
  ultimately show ?thesis by (simp add: precedes_def)
qed

lemma strict_subclass_size: "strict_subclass B A \<Longrightarrow> size A < size B"
proof -
  have "size X < size Y" if "X \<in> set (mro_tail Y)" for X Y
    using that by (cases Y) (auto simp: less_Suc_eq_le size_list_estimation')
  then show "strict_subclass B A \<Longrightarrow> size A < size B"
    by (auto simp: strict_subclass_def issubclass_def)
qed

lemma strict_subclass_asym: "strict_subclass B A \<Longrightarrow> \<not> strict_subclass A B"
  using strict_subclass_size [of B A] strict_subclass_size [of A B] by auto

lemma strict_subclass_irrefl: "\<not> strict_subclass A A"
  by (simp add: strict_subclass_def)

lemma subclass_precedence_pair:
  assumes "strict_subclass (ty b) (ty a)"
  shows "subclass_precedence ty [a, b] = [b, a]"
proof -
  have 1: "move_subclass ty [a, b] = Some [b, a]"
    using assms by (simp add: extract_Nil_code extract_Cons_code)
  have 2: "move_subclass ty [b, a] = None"
    using strict_subclass_asym [OF assms] by (simp add: extract_Nil_code extract_Cons_code)
  show ?thesis
    by (simp add: subclass_precedence_step [OF 1] subclass_precedence_fixed [OF 2])
qed

lemma first_occurrence_two_types:
  assumes "map ty xs = A # rest" and "set rest \<subseteq> {A, B}" and "B \<in> set rest" and "A \<noteq> B"
  shows "\<exists>a b. first_occurrence ty [] xs = [a, b] \<and> ty a = A \<and> ty b = B"
proof -
  let ?fo = "first_occurrence ty [] xs"
  from assms(1) obtain x xs' where xs: "xs = x # xs'" "ty x = A" "map ty xs' = rest"
    by auto
  have d: "distinct (map ty ?fo)"
    by (rule first_occurrence_distinct) simp
  have "set (map ty ?fo) = set (map ty xs)"
    by (simp only: first_occurrence_set) simp
  then have s: "set (map ty ?fo) = {A, B}"
    using assms(2,3) by (simp only: assms(1)) auto
  have "?fo = first_occurrence ty [x] xs'"
    by (simp add: xs)
  then obtain t where fo: "?fo = x # t"
    using first_occurrence_prefix [of ty "[x]" xs'] by auto
  have dt: "distinct (map ty t)" and nA: "A \<notin> set (map ty t)"
    using d fo xs(2) by auto
  have "set (map ty t) \<subseteq> {A, B}" and "B \<in> insert A (set (map ty t))"
    using s fo xs(2) by auto
  then have "set (map ty t) = {B}"
    using nA assms(4) by auto
  then have "map ty t = [B]"
    using dt by (cases "map ty t") (auto simp: insert_eq_iff dest: subset_singletonD)
  then obtain b where "t = [b]" "ty b = B" by auto
  with fo xs(2) show ?thesis by simp
qed


text \<open>
  C2. In the overload order of any call site, a type that is a strict subclass of another
  type of the order stands before it, wherever the two occurred among the arguments. In
  particular, when the overriding leaves have exactly the two types \<open>A\<close> and \<open>B\<close>, \<open>A\<close>
  occurring first, and \<open>B\<close> is a strict subclass of \<open>A\<close>, the overload order is
  \<open>[B, A]\<close>.
\<close>

theorem subclass_precedes_ancestor:
  "(\<forall>X Y. X \<in> set (OverloadOrder args kwargs) \<and> Y \<in> set (OverloadOrder args kwargs)
        \<and> strict_subclass Y X
      \<longrightarrow> precedes Y X (OverloadOrder args kwargs))
   \<and> (leaf_types args kwargs = A # rest \<and> set rest \<subseteq> {A, B} \<and> B \<in> set rest
        \<and> strict_subclass B A
      \<longrightarrow> OverloadOrder args kwargs = [B, A])"
proof (intro conjI allI impI)
  fix X Y
  assume h: "X \<in> set (OverloadOrder args kwargs) \<and> Y \<in> set (OverloadOrder args kwargs)
        \<and> strict_subclass Y X"
  show "precedes Y X (OverloadOrder args kwargs)"
    using overload_order_sorted [of args kwargs] h strict_subclass_irrefl [of X]
    by (intro sorted_wrt_precedes [where R = strict_subclass]) simp_all
next
  assume h: "leaf_types args kwargs = A # rest \<and> set rest \<subseteq> {A, B} \<and> B \<in> set rest
        \<and> strict_subclass B A"
  let ?xs = "filter is_TensorWithTFOverrideVariable (all_args args kwargs)"
  have ne: "A \<noteq> B" using h strict_subclass_irrefl [of A] by auto
  from h have m: "map class_type ?xs = A # rest" by (simp add: leaf_types_def)
  from h have r1: "set rest \<subseteq> {A, B}" and r2: "B \<in> set rest" by simp_all
  from first_occurrence_two_types [OF m r1 r2 ne]
  obtain a b where fo: "first_occurrence class_type [] ?xs = [a, b]"
      "class_type a = A" "class_type b = B"
    by auto
  have "subclass_precedence class_type [a, b] = [b, a]"
    using h fo(2,3) by (intro subclass_precedence_pair) simp
  then show "OverloadOrder args kwargs = [B, A]"
    by (simp add: OverloadOrder_def overloaded_args_def get_overloaded_args_def fo)
qed

theorem subclass_precedes_ancestor_witness:
  "leaf_types [ex_a, ListVariable [ex_b, ex_a]] [(''other'', ex_b)] = [ex_A, ex_B, ex_A, ex_B]
   \<and> strict_subclass ex_B ex_A
   \<and> OverloadOrder [ex_a, ListVariable [ex_b, ex_a]] [(''other'', ex_b)] = [ex_B, ex_A]
   \<and> precedes ex_B ex_A (OverloadOrder [ex_a, ListVariable [ex_b, ex_a]] [(''other'', ex_b)])"
proof -
  have lt: "leaf_types [ex_a, ListVariable [ex_b, ex_a]] [(''other'', ex_b)]
      = [ex_A, ex_B, ex_A, ex_B]"
    by (simp add: leaf_types_def all_args_def ex_a_def ex_b_def)
  have sub: "strict_subclass ex_B ex_A"
    by (simp add: strict_subclass_def issubclass_def ex_A_def ex_B_def ex_Tensor_def)
  note t = subclass_precedes_ancestor [where args = "[ex_a, ListVariable [ex_b, ex_a]]"
      and kwargs = "[(''other'', ex_b)]" and A = ex_A and B = ex_B and rest = "[ex_B, ex_A, ex_B]"]
  have oo: "OverloadOrder [ex_a, ListVariable [ex_b, ex_a]] [(''other'', ex_b)] = [ex_B, ex_A]"
    using t [THEN conjunct2] lt sub by simp
  have pr: "precedes ex_B ex_A
      (OverloadOrder [ex_a, ListVariable [ex_b, ex_a]] [(''other'', ex_b)])"
    using t [THEN conjunct1, THEN spec, THEN spec, THEN mp, of ex_A ex_B] sub
    by (simp add: oo)
  from lt sub oo pr show ?thesis by (intro conjI)
qed






















lemma decimal_not_Nil: "decimal n \<noteq> []"
  by (subst decimal.simps) simp

lemma digit_inj: "a < 10 \<Longrightarrow> b < 10 \<Longrightarrow> char_of (48 + a) = char_of (48 + b) \<Longrightarrow> a = (b::nat)"
proof -
  assume a: "a < 10" and b: "b < 10" and e: "char_of (48 + a) = (char_of (48 + b) :: char)"
  have "48 + a \<in> {0..<256}" "48 + b \<in> {0..<256}" using a b by simp_all
  with e have "48 + a = 48 + b"
    using inj_on_char_of_nat by (auto dest: inj_onD)
  then show ?thesis by simp
qed

lemma decimal_inj: "decimal m = decimal n \<Longrightarrow> m = n"
proof (induction m arbitrary: n rule: decimal.induct)
  case (1 m)
  show ?case
  proof (cases "m < 10")
    case True
    then have dm: "decimal m = [char_of (48 + m)]" by (subst decimal.simps) simp
    show ?thesis
    proof (cases "n < 10")
      case n: True
      then have "decimal n = [char_of (48 + n)]" by (subst decimal.simps) simp
      with dm "1.prems" True n show ?thesis by (auto dest: digit_inj)
    next
      case n: False
      then have "decimal n = decimal (n div 10) @ [char_of (48 + n mod 10)]"
        by (subst decimal.simps) simp
      with dm "1.prems" have "decimal (n div 10) = []" by simp
      then show ?thesis by (simp add: decimal_not_Nil)
    qed
  next
    case False
    then have dm: "decimal m = decimal (m div 10) @ [char_of (48 + m mod 10)]"
      by (subst decimal.simps) simp
    show ?thesis
    proof (cases "n < 10")
      case n: True
      then have "decimal n = [char_of (48 + n)]" by (subst decimal.simps) simp
      with dm "1.prems" have "decimal (m div 10) = []" by simp
      then show ?thesis by (simp add: decimal_not_Nil)
    next
      case n: False
      then have "decimal n = decimal (n div 10) @ [char_of (48 + n mod 10)]"
        by (subst decimal.simps) simp
      with dm "1.prems" have e: "decimal (m div 10) = decimal (n div 10)"
          "char_of (48 + m mod 10) = (char_of (48 + n mod 10) :: char)"
        by simp_all
      from "1.IH" [OF False e(1)] have "m div 10 = n div 10" .
      moreover from e(2) have "m mod 10 = n mod 10"
        by (intro digit_inj) simp_all
      ultimately show ?thesis by (metis div_mult_mod_eq)
    qed
  qed
qed

lemma decimal_no_underscore: "CHR ''_'' \<notin> set (decimal n)"
proof (induction n rule: decimal.induct)
  case (1 n)
  have d: "char_of (48 + k) \<noteq> CHR ''_''" if "k < 10" for k :: nat
  proof
    assume "char_of (48 + k) = CHR ''_''"
    then have "of_char (char_of (48 + k) :: char) = (of_char (CHR ''_'') :: nat)" by simp
    then show False using that by simp
  qed
  show ?case
  proof (cases "n < 10")
    case True
    then have "decimal n = [char_of (48 + n)]" by (subst decimal.simps) simp
    with d [OF True] show ?thesis by auto
  next
    case False
    then have "decimal n = decimal (n div 10) @ [char_of (48 + n mod 10)]"
      by (subst decimal.simps) simp
    moreover have "char_of (48 + n mod 10) \<noteq> CHR ''_''" by (rule d) simp
    ultimately show ?thesis using "1.IH" [OF False] by auto
  qed
qed

lemma split_at_last:
  assumes "xs @ c # ys = xs' @ c # ys'" and "c \<notin> set ys" and "c \<notin> set ys'"
  shows "xs = xs' \<and> ys = ys'"
proof -
  have "takeWhile (\<lambda>x. x \<noteq> c) (rev (xs @ c # ys)) = rev ys"
    using assms(2) by (simp add: takeWhile_append)
  moreover have "takeWhile (\<lambda>x. x \<noteq> c) (rev (xs' @ c # ys')) = rev ys'"
    using assms(3) by (simp add: takeWhile_append)
  ultimately have "ys = ys'" using assms(1) by simp
  with assms(1) show ?thesis by simp
qed

lemma mangled_name_inj:
  assumes "global_mangled_class_name v = global_mangled_class_name w"
  shows "type_name (class_type v) = type_name (class_type w)
    \<and> type_id (class_type v) = type_id (class_type w)"
proof -
  from assms have "type_name (class_type v) @ CHR ''_'' # decimal (type_id (class_type v))
      = type_name (class_type w) @ CHR ''_'' # decimal (type_id (class_type w))"
    by (simp add: global_mangled_class_name_def)
  from split_at_last [OF this decimal_no_underscore decimal_no_underscore]
  show ?thesis by (auto dest: decimal_inj)
qed

text \<open>
  C9. The name under which the class of a tracked value is registered is
  \<^verbatim>\<open>__subclass_\<close>, the \<^verbatim>\<open>__name__\<close> of the class, an underscore and the decimal \<^verbatim>\<open>id\<close> of the
  class: it is a function of the class alone, two names are equal exactly when both the
  declared names and the identities are equal, and so two classes with the same
  \<^verbatim>\<open>__name__\<close> and different identities get different names. Building a tracked value
  from a base tensor variable registers the class under that name, changes no other entry
  of the registry, leaves the tracing context as it is when the name is already present
  (no error), and doing it again for the same class changes nothing.
\<close>

theorem mangled_name_registration:
  "(class_type v = class_type w \<longrightarrow> global_mangled_class_name v = global_mangled_class_name w)
   \<and> (type_name (class_type v) = type_name (class_type w)
        \<and> type_id (class_type v) \<noteq> type_id (class_type w)
      \<longrightarrow> global_mangled_class_name v \<noteq> global_mangled_class_name w)
   \<and> (global_mangled_class_name v = global_mangled_class_name w
      \<longleftrightarrow> type_name (class_type v) = type_name (class_type w)
          \<and> type_id (class_type v) = type_id (class_type w))
   \<and> global_mangled_class_name v
       = ''__subclass_'' @ type_name (class_type v) @ ''_'' @ decimal (type_id (class_type v))
   \<and> (decimal m = decimal n \<longleftrightarrow> m = n)
   \<and> (let var = TensorWithTFOverrideVariable p c s f;
           name = global_mangled_class_name var;
           tx' = snd (from_tensor_var h tx (TensorVariable p (torch_Tensor h) s) c f)
       in fst (from_tensor_var h tx (TensorVariable p (torch_Tensor h) s) c f) = Inr var
          \<and> global_scope tx' name \<noteq> None
          \<and> (global_scope tx name = None \<longrightarrow> global_scope tx' name = Some c)
          \<and> (global_scope tx name \<noteq> None \<longrightarrow> tx' = tx)
          \<and> (\<forall>k. k \<noteq> name \<longrightarrow> global_scope tx' k = global_scope tx k)
          \<and> from_tensor_var h tx' (TensorVariable p' (torch_Tensor h) s') c f'
              = (Inr (TensorWithTFOverrideVariable p' c s' f'), tx'))"
proof -
  have 1: "class_type v = class_type w \<longrightarrow>
      global_mangled_class_name v = global_mangled_class_name w"
    by (simp add: global_mangled_class_name_def)
  have 2: "type_name (class_type v) = type_name (class_type w)
        \<and> type_id (class_type v) \<noteq> type_id (class_type w)
      \<longrightarrow> global_mangled_class_name v \<noteq> global_mangled_class_name w"
    by (auto dest: mangled_name_inj)
  have 3: "global_mangled_class_name v = global_mangled_class_name w
      \<longleftrightarrow> type_name (class_type v) = type_name (class_type w)
          \<and> type_id (class_type v) = type_id (class_type w)"
  proof
    assume "global_mangled_class_name v = global_mangled_class_name w"
    then show "type_name (class_type v) = type_name (class_type w)
          \<and> type_id (class_type v) = type_id (class_type w)"
      by (rule mangled_name_inj)
  next
    assume "type_name (class_type v) = type_name (class_type w)
          \<and> type_id (class_type v) = type_id (class_type w)"
    then show "global_mangled_class_name v = global_mangled_class_name w"
      by (simp add: global_mangled_class_name_def)
  qed
  have 4: "global_mangled_class_name v
       = ''__subclass_'' @ type_name (class_type v) @ ''_'' @ decimal (type_id (class_type v))"
    by (simp add: global_mangled_class_name_def)
  have 5: "decimal m = decimal n \<longleftrightarrow> m = n"
    by (auto dest: decimal_inj)
  have same: "global_mangled_class_name (TensorWithTFOverrideVariable p' c s' f')
      = global_mangled_class_name (TensorWithTFOverrideVariable p c s f)"
    by (simp add: global_mangled_class_name_def)
  have 6: "(let var = TensorWithTFOverrideVariable p c s f;
           name = global_mangled_class_name var;
           tx' = snd (from_tensor_var h tx (TensorVariable p (torch_Tensor h) s) c f)
       in fst (from_tensor_var h tx (TensorVariable p (torch_Tensor h) s) c f) = Inr var
          \<and> global_scope tx' name \<noteq> None
          \<and> (global_scope tx name = None \<longrightarrow> global_scope tx' name = Some c)
          \<and> (global_scope tx name \<noteq> None \<longrightarrow> tx' = tx)
          \<and> (\<forall>k. k \<noteq> name \<longrightarrow> global_scope tx' k = global_scope tx k)
          \<and> from_tensor_var h tx' (TensorVariable p' (torch_Tensor h) s') c f'
              = (Inr (TensorWithTFOverrideVariable p' c s' f'), tx'))"
    by (cases "global_scope tx (global_mangled_class_name
          (TensorWithTFOverrideVariable p c s f))")
      (simp_all add: from_tensor_var_def install_global_def Let_def same)
  from 1 2 3 4 5 6 show ?thesis by (intro conjI)
qed

theorem mangled_name_registration_witness:
  "global_mangled_class_name ex_c = ''__subclass_C_4''
   \<and> global_mangled_class_name ex_a = ''__subclass_A_2''
   \<and> global_mangled_class_name ex_c
       \<noteq> global_mangled_class_name
           (TensorWithTFOverrideVariable 0 (PyType 5 ''C'' [ex_Tensor] [] ex_meta) None (ex_fn 5))
   \<and> global_mangled_class_name ex_c
       \<noteq> global_mangled_class_name
           (TensorWithTFOverrideVariable 0 (PyType 4 ''D'' [ex_Tensor] [] ex_meta) None (ex_fn 5))
   \<and> from_tensor_var ex_host (ex_tx True) (TensorVariable 0 ex_Tensor None) ex_C (ex_fn 4)
       = (Inr ex_c, install_global (ex_tx True) ''__subclass_C_4'' ex_C)
   \<and> from_tensor_var ex_host (install_global (ex_tx True) ''__subclass_C_4'' ex_C)
         (TensorVariable 7 ex_Tensor None) ex_C (ex_fn 4)
       = (Inr (TensorWithTFOverrideVariable 7 ex_C None (ex_fn 4)),
          install_global (ex_tx True) ''__subclass_C_4'' ex_C)"
proof -
  have n: "global_mangled_class_name ex_c = ''__subclass_C_4''"
    by (simp add: global_mangled_class_name_def decimal.simps char_of_eq_iff ex_c_def ex_C_def)
  have na: "global_mangled_class_name ex_a = ''__subclass_A_2''"
    by (simp add: global_mangled_class_name_def decimal.simps char_of_eq_iff ex_a_def ex_A_def)
  have T: "torch_Tensor ex_host = ex_Tensor"
    by (simp add: ex_host_def)
  have e: "from_tensor_var ex_host (ex_tx True) (TensorVariable 0 ex_Tensor None) ex_C (ex_fn 4)
       = (Inr ex_c, install_global (ex_tx True) ''__subclass_C_4'' ex_C)"
    using n by (simp add: from_tensor_var_def T Let_def ex_c_def ex_tx_def)
  note t = mangled_name_registration [where v = ex_c
      and w = "TensorWithTFOverrideVariable 0 (PyType 5 ''C'' [ex_Tensor] [] ex_meta) None
        (ex_fn 5)"
      and p = 0 and c = ex_C and s = None and f = "ex_fn 4" and h = ex_host
      and tx = "ex_tx True" and p' = 7 and s' = None and f' = "ex_fn 4", unfolded Let_def T e]
  note u = mangled_name_registration [where v = ex_c
      and w = "TensorWithTFOverrideVariable 0 (PyType 4 ''D'' [ex_Tensor] [] ex_meta) None
        (ex_fn 5)", THEN conjunct2, THEN conjunct2, THEN conjunct1]
  have d: "global_mangled_class_name ex_c
       \<noteq> global_mangled_class_name
           (TensorWithTFOverrideVariable 0 (PyType 5 ''C'' [ex_Tensor] [] ex_meta) None (ex_fn 5))"
    using t [THEN conjunct2, THEN conjunct1] by (simp add: ex_c_def ex_C_def)
  have d2: "global_mangled_class_name ex_c
       \<noteq> global_mangled_class_name
           (TensorWithTFOverrideVariable 0 (PyType 4 ''D'' [ex_Tensor] [] ex_meta) None (ex_fn 5))"
    unfolding u by (simp add: ex_c_def ex_C_def)
  have i: "from_tensor_var ex_host (install_global (ex_tx True) ''__subclass_C_4'' ex_C)
         (TensorVariable 7 ex_Tensor None) ex_C (ex_fn 4)
       = (Inr (TensorWithTFOverrideVariable 7 ex_C None (ex_fn 4)),
          install_global (ex_tx True) ''__subclass_C_4'' ex_C)"
    using t [THEN conjunct2, THEN conjunct2, THEN conjunct2, THEN conjunct2, THEN conjunct2]
    by simp
  from n na d d2 e i show ?thesis by (intro conjI)
qed

end
